theory Spec2Isabelle
  imports Complex_Main
begin

unbundle bit_operations_syntax

section \<open>Numbers\<close>

text \<open>
  The script \<^verbatim>\<open>tracker.py\<close> computes with Python integers (pixel coordinates) and
  Python floats (the ground-truth values the operator types, and everything derived from
  them). Integers are modelled by \<^typ>\<open>int\<close>, floats by \<^typ>\<open>real\<close>: arithmetic is
  exact, so rounding, infinities and NaN are outside this model. A value that may be of
  either kind (the point given to \<^verbatim>\<open>calibrateXY\<close>) is a \<^typ>\<open>real\<close>, an integer being
  embedded by \<^const>\<open>real_of_int\<close>, which is also written where Python converts an
  integer to a float in mixed arithmetic.
\<close>

type_synonym point = "real \<times> real"

text \<open>A rectangle \<^verbatim>\<open>(x, y, w, h)\<close> as OpenCV hands it over (its entries may be floats).\<close>

type_synonym box = "real \<times> real \<times> real \<times> real"

text \<open>Python's \<^verbatim>\<open>int(v)\<close> on a float truncates towards zero.\<close>

definition py_int :: "real \<Rightarrow> int" where
  "py_int v = (if 0 \<le> v then \<lfloor>v\<rfloor> else \<lceil>v\<rceil>)"

text \<open>The exceptions the script can raise.\<close>

datatype error = ValueError | ZeroDivisionError | AttributeError | OverflowError

section \<open>The calibration constants and \<^verbatim>\<open>calibrateXY\<close>\<close>

text \<open>
  \<^verbatim>\<open>
  calibrationRef = {"refPoint":
                      {"pixels": (0,0), "truth": (0,0)},
                  "pixelsToTruthRatio": (1,1)}
  \<close>
  The nested dictionary has a fixed set of keys, so it is a record of records.
\<close>

record ref_point =
  pixels :: "int \<times> int"
  truth :: point

record calibration =
  refPoint :: ref_point
  pixelsToTruthRatio :: point

definition calibrationRef_default :: calibration where
  "calibrationRef_default =
     \<lparr>refPoint = \<lparr>pixels = (0, 0), truth = (0, 0)\<rparr>, pixelsToTruthRatio = (1, 1)\<rparr>"

text \<open>
  \<^verbatim>\<open>
  def calibrateXY(pt, ref):
      x = (pt[0] - calibrationRef["refPoint"]["pixels"][0]) * \
          calibrationRef["pixelsToTruthRatio"][0] + \
          calibrationRef["refPoint"]["truth"][0]
      y = (pt[1] - calibrationRef["refPoint"]["pixels"][1]) * \
          calibrationRef["pixelsToTruthRatio"][1] + \
          calibrationRef["refPoint"]["truth"][1]
      return (x, y)
  \<close>
  The function reads the module-level dictionary; the model passes it as the first
  argument \<open>g\<close>. The parameter \<open>ref\<close> is kept, with a type of its own, as the source
  declares it. The reference pixel is always a pair of integers (the initial \<open>(0,0)\<close>, or
  \<^verbatim>\<open>int\<close> values of a rectangle); the point \<open>pt\<close> may be any pair of numbers.
\<close>

definition calibrateXY :: "calibration \<Rightarrow> point \<Rightarrow> 'r \<Rightarrow> point" where
  "calibrateXY g pt ref =
     (let x = (fst pt - real_of_int (fst (pixels (refPoint g)))) *
              fst (pixelsToTruthRatio g) +
              fst (truth (refPoint g));
          y = (snd pt - real_of_int (snd (pixels (refPoint g)))) *
              snd (pixelsToTruthRatio g) +
              snd (truth (refPoint g))
      in (x, y))"

section \<open>\<^verbatim>\<open>calibrateXY\<close> on Python's two kinds of number\<close>

text \<open>
  The exact model above cannot show the one way in which \<^verbatim>\<open>calibrateXY\<close> raises. Python
  keeps integers and floats apart: \<^verbatim>\<open>-\<close>, \<^verbatim>\<open>*\<close> and \<^verbatim>\<open>+\<close> on two integers are exact
  integer operations; when one operand is a float, the other is converted to a float
  first, and the conversion of an integer raises \<^verbatim>\<open>OverflowError\<close> ("int too large to
  convert to float") when the integer rounds to a value beyond the largest float, that
  is when its magnitude is at least \<open>2 ^ 1024 - 2 ^ 970\<close>. On two floats the three
  operations never raise (a result out of range is \<^verbatim>\<open>inf\<close>). The value of a float is
  still an exact real here.
\<close>

datatype number = PyInt int | PyFloat real

definition value_of :: "number \<Rightarrow> real" where
  "value_of v = (case v of PyInt n \<Rightarrow> real_of_int n | PyFloat r \<Rightarrow> r)"

definition float_fits :: "int \<Rightarrow> bool" where
  "float_fits n = (\<bar>n\<bar> < 2 ^ 1024 - 2 ^ 970)"

definition as_float :: "number \<Rightarrow> error + real" where
  "as_float v =
     (case v of
        PyFloat r \<Rightarrow> Inr r
      | PyInt n \<Rightarrow> if float_fits n then Inr (real_of_int n) else Inl OverflowError)"

fun py_arith ::
  "(int \<Rightarrow> int \<Rightarrow> int) \<Rightarrow> (real \<Rightarrow> real \<Rightarrow> real) \<Rightarrow> number \<Rightarrow> number \<Rightarrow> error + number"
where
  "py_arith iop fop (PyInt m) (PyInt n) = Inr (PyInt (iop m n))"
| "py_arith iop fop a b =
     (case as_float a of
        Inl e \<Rightarrow> Inl e
      | Inr x \<Rightarrow> (case as_float b of Inl e \<Rightarrow> Inl e | Inr y \<Rightarrow> Inr (PyFloat (fop x y))))"

definition py_sub :: "number \<Rightarrow> number \<Rightarrow> error + number" where
  "py_sub = py_arith (-) (-)"

definition py_mul :: "number \<Rightarrow> number \<Rightarrow> error + number" where
  "py_mul = py_arith (*) (*)"

definition py_add :: "number \<Rightarrow> number \<Rightarrow> error + number" where
  "py_add = py_arith (+) (+)"

text \<open>
  The dictionary \<^verbatim>\<open>calibrationRef\<close> with the kind of each number kept: the reference
  pixel is a pair of integers, the reference truth and the ratio are integers at the start
  and floats after a calibration.
\<close>

record ref_point_py =
  pixels_py :: "int \<times> int"
  truth_py :: "number \<times> number"

record calibration_py =
  refPoint_py :: ref_point_py
  pixelsToTruthRatio_py :: "number \<times> number"

definition calibrationRef_default_py :: calibration_py where
  "calibrationRef_default_py =
     \<lparr>refPoint_py = \<lparr>pixels_py = (0, 0), truth_py = (PyInt 0, PyInt 0)\<rparr>,
      pixelsToTruthRatio_py = (PyInt 1, PyInt 1)\<rparr>"

text \<open>The constants of the exact model that a dictionary of Python numbers stands for.\<close>

definition exact :: "calibration_py \<Rightarrow> calibration" where
  "exact g =
     \<lparr>refPoint = \<lparr>pixels = pixels_py (refPoint_py g),
                   truth = (value_of (fst (truth_py (refPoint_py g))),
                            value_of (snd (truth_py (refPoint_py g))))\<rparr>,
      pixelsToTruthRatio = (value_of (fst (pixelsToTruthRatio_py g)),
                            value_of (snd (pixelsToTruthRatio_py g)))\<rparr>"

text \<open>
  Lines 55 to 62 again, operation by operation in the order Python evaluates them: \<open>x\<close>
  is computed before \<open>y\<close>, and the first operation that raises ends the call.
\<close>

definition calibrateXY_py ::
  "calibration_py \<Rightarrow> number \<times> number \<Rightarrow> 'r \<Rightarrow> error + number \<times> number"
where
  "calibrateXY_py g pt ref =
     (case py_sub (fst pt) (PyInt (fst (pixels_py (refPoint_py g)))) of
        Inl e \<Rightarrow> Inl e
      | Inr dx \<Rightarrow>
     (case py_mul dx (fst (pixelsToTruthRatio_py g)) of
        Inl e \<Rightarrow> Inl e
      | Inr mx \<Rightarrow>
     (case py_add mx (fst (truth_py (refPoint_py g))) of
        Inl e \<Rightarrow> Inl e
      | Inr x \<Rightarrow>
     (case py_sub (snd pt) (PyInt (snd (pixels_py (refPoint_py g)))) of
        Inl e \<Rightarrow> Inl e
      | Inr dy \<Rightarrow>
     (case py_mul dy (snd (pixelsToTruthRatio_py g)) of
        Inl e \<Rightarrow> Inl e
      | Inr my \<Rightarrow>
     (case py_add my (snd (truth_py (refPoint_py g))) of
        Inl e \<Rightarrow> Inl e
      | Inr y \<Rightarrow> Inr (x, y)))))))"

section \<open>The per-frame report\<close>

text \<open>
  What one pass of the tracking block makes observable, in the order it happens: the
  lines it prints on standard output and the success flag it draws on the frame. The
  \<^verbatim>\<open>%.4f\<close> formatting, the drawing of rectangles and the frames-per-second figure
  (wall-clock time) are presentation and are not modelled.
  \<^item> \<open>Newlines\<close>: \<^verbatim>\<open>print("\n")\<close>;
  \<^item> \<open>Object i x y\<close>: \<^verbatim>\<open>print("Object %d, (%.4f, %.4f)" % (i, x, y))\<close>;
  \<^item> \<open>Distance j i dx dy\<close>: \<^verbatim>\<open>print("Distance %d to %d, (%.4f, %.4f)" % (j, i, dx, dy))\<close>;
  \<^item> \<open>Success b\<close>: the entry \<^verbatim>\<open>("Success", "Yes" if success else "No")\<close> of \<^verbatim>\<open>info\<close>.
\<close>

datatype report_item =
    Newlines
  | Object nat real real
  | Distance nat nat real real
  | Success bool

text \<open>
  The body of \<^verbatim>\<open>for i in range(len(boxes))\<close>, lines 84 to 97:
  \<^verbatim>\<open>
  box = boxes[i]
  (x, y, w, h) = [int(v) for v in box]
  boxCenter = (x + w//2, y + h//2)
  realXY = calibrateXY(boxCenter, calibrationRef)
  realPoints.append(realXY)
  print("Object %d, (%.4f, %.4f)" % (i, realXY[0], realXY[1]))
  for j in range(len(realPoints)-1):
      print("Distance %d to %d, (%.4f, %.4f)" %
              (j, i, realXY[0] - realPoints[j][0], realXY[1] - realPoints[j][1]))
  \<close>
  The state of the loop is the list \<^verbatim>\<open>realPoints\<close> and what has been printed so far.
  Python's \<^verbatim>\<open>//\<close> on integers is floor division, as \<open>div\<close> on \<^typ>\<open>int\<close> is; the
  centre is a pair of integers, embedded in the reals when it is passed on. The index
  \<open>i\<close> ranges over \<^verbatim>\<open>range(len(boxes))\<close> and \<open>j\<close> over
  \<^verbatim>\<open>range(len(realPoints)-1)\<close>, so both reads are in range.
\<close>

definition box_step ::
  "calibration \<Rightarrow> box list \<Rightarrow> point list \<times> report_item list \<Rightarrow> nat \<Rightarrow> point list \<times> report_item list"
where
  "box_step g boxes st i =
     (let (realPoints, out) = st;
          (bx, by, bw, bh) = boxes ! i;
          x = py_int bx; y = py_int by; w = py_int bw; h = py_int bh;
          boxCenter = (x + w div 2, y + h div 2);
          realXY = calibrateXY g (real_of_int (fst boxCenter), real_of_int (snd boxCenter)) g;
          realPoints = realPoints @ [realXY];
          out = out @ [Object i (fst realXY) (snd realXY)];
          out = out @
            map (\<lambda>j. Distance j i (fst realXY - fst (realPoints ! j))
                                   (snd realXY - snd (realPoints ! j)))
              [0..<length realPoints - 1]
      in (realPoints, out))"

text \<open>The whole loop, started with \<^verbatim>\<open>realPoints = []\<close> and nothing printed.\<close>

definition box_loop :: "calibration \<Rightarrow> box list \<Rightarrow> point list \<times> report_item list" where
  "box_loop g boxes = foldl (box_step g boxes) ([], []) [0..<length boxes]"

text \<open>
  The two parts of a frame report, read off the printed lines: the positions
  \<open>(i, x, y)\<close> from the \<open>Object\<close> lines and the distances \<open>((j, i), (dx, dy))\<close> from the
  \<open>Distance\<close> lines, each in the order printed. The pair is labelled as the line
  prints it: \<^verbatim>\<open>"Distance j to i"\<close> is the pair \<open>(j, i)\<close>.
\<close>

fun positions :: "report_item list \<Rightarrow> (nat \<times> real \<times> real) list" where
  "positions [] = []"
| "positions (Object i x y # out) = (i, x, y) # positions out"
| "positions (_ # out) = positions out"

fun distances :: "report_item list \<Rightarrow> ((nat \<times> nat) \<times> (real \<times> real)) list" where
  "distances [] = []"
| "distances (Distance j i dx dy # out) = ((j, i), (dx, dy)) # distances out"
| "distances (_ # out) = distances out"

text \<open>
  Two abbreviating functions for stating what the loop computes: the calibrated centre of
  one box (lines 85, 87 and 89 for that box), and the lines printed for index \<open>i\<close> once
  all calibrated centres \<open>ps\<close> are known.
\<close>

definition realXY_of :: "calibration \<Rightarrow> box \<Rightarrow> point" where
  "realXY_of g b =
     (case b of (bx, by, bw, bh) \<Rightarrow>
        calibrateXY g (real_of_int (py_int bx + py_int bw div 2),
                       real_of_int (py_int by + py_int bh div 2)) g)"

definition lines_of :: "point list \<Rightarrow> nat \<Rightarrow> report_item list" where
  "lines_of ps i =
     Object i (fst (ps ! i)) (snd (ps ! i)) #
     map (\<lambda>j. Distance j i (fst (ps ! i) - fst (ps ! j)) (snd (ps ! i) - snd (ps ! j)))
       [0..<i]"

section \<open>The session: the \<^verbatim>\<open>while True\<close> loop\<close>

text \<open>
  The module-level variables the loop reads and writes:
  \<^item> \<open>initBox\<close>: \<^verbatim>\<open>None\<close> until the first region is selected;
  \<^item> \<open>trackers\<close>: the \<^verbatim>\<open>cv2.MultiTracker\<close>; the model keeps the box each added tracker
    was seeded with, in the order of the calls of \<^verbatim>\<open>trackers.add\<close>, which is taken to
    append (the tracking algorithms themselves are library code);
  \<^item> \<open>fps\<close>: \<^verbatim>\<open>None\<close>, or the \<^verbatim>\<open>FPS\<close> counter, of which the model keeps the number
    of frames counted since \<^verbatim>\<open>start()\<close>;
  \<^item> \<open>calibrationRef\<close>: the calibration constants.
\<close>

record session =
  initBox :: "box option"
  trackers :: "box list"
  fps :: "nat option"
  calibrationRef :: calibration

definition session_start :: session where
  "session_start =
     \<lparr>initBox = None, trackers = [], fps = None, calibrationRef = calibrationRef_default\<rparr>"

text \<open>
  Uncaught exceptions (the type \<open>error\<close> above) end the script; the script has no
  \<^verbatim>\<open>try\<close>. A pass of the loop
  either falls through to the next pass (\<open>Running\<close>), leaves the loop by \<^verbatim>\<open>break\<close>
  (\<open>Stopped\<close>), or raises (\<open>Raised\<close>); in each case the model reports the values the
  module-level variables have at that point.
\<close>

datatype status = Running | Stopped | Raised error

text \<open>
  What the environment supplies during one pass of the loop:
  \<^item> \<open>vs_read\<close>: the frame of \<^verbatim>\<open>vs.read()\<close>, \<open>None\<close> at the end of the stream (the
    pixels are not modelled);
  \<^item> \<open>update_result\<close>: what \<^verbatim>\<open>trackers.update(frame)\<close> returns, read only when the
    tracking block runs;
  \<^item> \<open>waitKey\<close>: what \<^verbatim>\<open>cv2.waitKey(1)\<close> returns;
  \<^item> \<open>selectROI\<close>: what \<^verbatim>\<open>cv2.selectROI\<close> returns, read only for the keys s and c;
  \<^item> \<open>float_inputs\<close>: the four values of \<^verbatim>\<open>float(input(...))\<close> of a calibration, each
    \<open>None\<close> when the text typed is not a number and \<^verbatim>\<open>float\<close> raises
    \<^verbatim>\<open>ValueError\<close>; a value is read only when its prompt is reached.
\<close>

type_synonym frame = unit

record answers =
  x_calib0 :: "real option"
  y_calib0 :: "real option"
  x_calib1 :: "real option"
  y_calib1 :: "real option"

record inputs =
  vs_read :: "frame option"
  update_result :: "bool \<times> box list"
  waitKey :: int
  selectROI :: box
  float_inputs :: answers

definition ord :: "char \<Rightarrow> int" where
  "ord c = of_char c"

text \<open>
  Lines 75 to 113, \<^verbatim>\<open>if initBox is not None:\<close>. The report is printed before
  \<^verbatim>\<open>fps.update()\<close>, which raises \<^verbatim>\<open>AttributeError\<close> when \<^verbatim>\<open>fps\<close> is still
  \<^verbatim>\<open>None\<close>; the success flag is drawn after it.
\<close>

definition tracking_block ::
  "session \<Rightarrow> bool \<times> box list \<Rightarrow> status \<times> session \<times> report_item list"
where
  "tracking_block s upd =
     (case initBox s of
        None \<Rightarrow> (Running, s, [])
      | Some _ \<Rightarrow>
          (let (success, boxes) = upd;
               out = Newlines # snd (box_loop (calibrationRef s) boxes)
           in case fps s of
                None \<Rightarrow> (Raised AttributeError, s, out)
              | Some n \<Rightarrow> (Running, s\<lparr>fps := Some (Suc n)\<rparr>, out @ [Success success])))"

text \<open>
  Lines 120 to 127, the key s:
  \<^verbatim>\<open>
  initBox = cv2.selectROI("Frame", frame, fromCenter=False, showCrosshair=True)
  tracker = OPENCV_OBJECT_TRACKERS[args["tracker"]]()
  trackers.add(tracker, frame, initBox)
  fps = FPS().start()
  \<close>
  The tracker name of the command line is taken to be a key of the table, and the
  library calls to return.
\<close>

definition add_region :: "session \<Rightarrow> box \<Rightarrow> session" where
  "add_region s roi = s\<lparr>initBox := Some roi, trackers := trackers s @ [roi], fps := Some 0\<rparr>"

text \<open>
  Lines 130 to 175, the key c (the drawing between the prompts is left out):
  \<^verbatim>\<open>
  calBox = cv2.selectROI("Frame", frame, fromCenter=False, showCrosshair=False)
  (x, y, w, h) = [int(v) for v in calBox]
  x_calib0 = float(input("Enter x coordinate of marked corner: "))
  y_calib0 = float(input("Enter y coordinate of marked corner: "))
  calibrationRef["refPoint"]["pixels"] = (x, y)
  calibrationRef["refPoint"]["truth"] = (x_calib0, y_calib0)
  x_calib1 = float(input("Enter x coordinate of marked corner: "))
  y_calib1 = float(input("Enter y coordinate of marked corner: "))
  calibrationRef["pixelsToTruthRatio"] = ((x_calib1 - x_calib0) / w,
                                          (y_calib1 - y_calib0) / h)
  fps = FPS().start()
  \<close>
  Python's \<^verbatim>\<open>/\<close> raises \<^verbatim>\<open>ZeroDivisionError\<close> on a zero divisor; the tuple is built
  left to right, so the division by \<open>w\<close> comes first.
\<close>

definition calibrate :: "session \<Rightarrow> box \<Rightarrow> answers \<Rightarrow> status \<times> session" where
  "calibrate s calBox a =
     (let (bx, by, bw, bh) = calBox;
          x = py_int bx; y = py_int by; w = py_int bw; h = py_int bh
      in case x_calib0 a of
           None \<Rightarrow> (Raised ValueError, s)
         | Some x0 \<Rightarrow>
      (case y_calib0 a of
           None \<Rightarrow> (Raised ValueError, s)
         | Some y0 \<Rightarrow>
      (let s1 = s\<lparr>calibrationRef := (calibrationRef s)
                    \<lparr>refPoint := \<lparr>pixels = (x, y), truth = (x0, y0)\<rparr>\<rparr>\<rparr>
       in case x_calib1 a of
            None \<Rightarrow> (Raised ValueError, s1)
          | Some x1 \<Rightarrow>
       (case y_calib1 a of
            None \<Rightarrow> (Raised ValueError, s1)
          | Some y1 \<Rightarrow>
              if w = 0 then (Raised ZeroDivisionError, s1)
              else if h = 0 then (Raised ZeroDivisionError, s1)
              else (Running,
                    s1\<lparr>calibrationRef := (calibrationRef s1)
                          \<lparr>pixelsToTruthRatio :=
                             ((x1 - x0) / real_of_int w, (y1 - y0) / real_of_int h)\<rparr>,
                       fps := Some 0\<rparr>)))))"

text \<open>
  One pass of the loop, lines 66 to 179: read a frame (\<^verbatim>\<open>break\<close> when there is none),
  run the tracking block, then dispatch on \<^verbatim>\<open>key = cv2.waitKey(1) & 0xFF\<close>. The result
  carries what the pass made observable.
\<close>

definition iteration :: "session \<Rightarrow> inputs \<Rightarrow> status \<times> session \<times> report_item list" where
  "iteration s inp =
     (case vs_read inp of
        None \<Rightarrow> (Stopped, s, [])
      | Some frame \<Rightarrow>
          (let (st, s1, out) = tracking_block s (update_result inp) in
           if st \<noteq> Running then (st, s1, out)
           else
             (let key = waitKey inp AND 255 in
              if key = ord CHR ''s'' then (Running, add_region s1 (selectROI inp), out)
              else if key = ord CHR ''c'' then
                (let (st2, s2) = calibrate s1 (selectROI inp) (float_inputs inp) in (st2, s2, out))
              else if key = ord CHR ''q'' then (Stopped, s1, out)
              else (Running, s1, out))))"

text \<open>
  The loop over a finite prefix of the environment's inputs, one element per pass. It
  returns the status and variables after the last pass made and the observable output of
  each pass; inputs after a \<^verbatim>\<open>break\<close> or an exception are not consumed.
\<close>

fun run :: "session \<Rightarrow> inputs list \<Rightarrow> status \<times> session \<times> report_item list list" where
  "run s [] = (Running, s, [])"
| "run s (inp # inps) =
     (let (st, s1, out) = iteration s inp in
      if st = Running then
        (let (st', s2, outs) = run s1 inps in (st', s2, out # outs))
      else (st, s1, [out]))"

text \<open>
  What holds of the variables in every state the loop reaches: \<^verbatim>\<open>initBox\<close> is set
  exactly when a tracker has been added, and then \<^verbatim>\<open>fps\<close> is set as well (the key s
  sets all three).
\<close>

definition session_inv :: "session \<Rightarrow> bool" where
  "session_inv s =
     ((initBox s = None) = (trackers s = []) \<and> (initBox s = None \<or> fps s \<noteq> None))"

text \<open>
  An input for examples: a frame is read, the trackers return two boxes, the operator
  selects the rectangle (0,0,100,50) and types 0, 0, 10 and 5; the key is the parameter.
\<close>

definition example_pass :: "int \<Rightarrow> inputs" where
  "example_pass key =
     \<lparr>vs_read = Some (), update_result = (True, [(10, 10, 20, 20), (50, 50, 20, 20)]),
      waitKey = key, selectROI = (0, 0, 100, 50),
      float_inputs =
        \<lparr>x_calib0 = Some 0, y_calib0 = Some 0, x_calib1 = Some 10, y_calib1 = Some 5\<rparr>\<rparr>"

section \<open>Properties of \<^verbatim>\<open>calibrateXY\<close>\<close>

text \<open>
  Claim C10. The second argument of \<^verbatim>\<open>calibrateXY\<close> is never read: for one state of the
  calibration constants and one pixel point, any two values passed as \<open>ref\<close> give the
  same result.
\<close>

theorem calibrateXY_ignores_ref:
  "calibrateXY g pt r1 = calibrateXY g pt r2"
  by (simp add: calibrateXY_def)

text \<open>
  Claim C8. With the constants the script starts with (reference pixel \<open>(0,0)\<close>, reference
  truth \<open>(0,0)\<close>, ratio \<open>(1,1)\<close>) the mapping returns every pixel point unchanged.
\<close>

theorem calibrateXY_default_identity:
  "calibrateXY calibrationRef_default p ref = p"
  by (simp add: calibrateXY_def calibrationRef_default_def)

text \<open>
  In the exact model each coordinate of the result is
  (pixel - reference pixel) * ratio + reference truth on that axis, and is the same
  whenever the components on that axis are.
\<close>

lemma calibrateXY_exact_formula:
  "calibrateXY g (px, py) ref =
     ((px - real_of_int (fst (pixels (refPoint g)))) *
        fst (pixelsToTruthRatio g) + fst (truth (refPoint g)),
      (py - real_of_int (snd (pixels (refPoint g)))) *
        snd (pixelsToTruthRatio g) + snd (truth (refPoint g)))
   \<and> (fst pt = fst pt' \<and> fst (pixels (refPoint g)) = fst (pixels (refPoint g')) \<and>
        fst (truth (refPoint g)) = fst (truth (refPoint g')) \<and>
        fst (pixelsToTruthRatio g) = fst (pixelsToTruthRatio g')
        \<longrightarrow> fst (calibrateXY g pt ref) = fst (calibrateXY g' pt' ref'))
   \<and> (snd pt = snd pt' \<and> snd (pixels (refPoint g)) = snd (pixels (refPoint g')) \<and>
        snd (truth (refPoint g)) = snd (truth (refPoint g')) \<and>
        snd (pixelsToTruthRatio g) = snd (pixelsToTruthRatio g')
        \<longrightarrow> snd (calibrateXY g pt ref) = snd (calibrateXY g' pt' ref'))"
  by (simp add: calibrateXY_def)

subsection \<open>With integers and floats kept apart\<close>

text \<open>
  Each arithmetic operation that returns has the exact value, and raises nothing but
  \<^verbatim>\<open>OverflowError\<close>.
\<close>

lemma py_sub_value: "py_sub a b = Inr c \<Longrightarrow> value_of c = value_of a - value_of b"
  by (cases a; cases b)
     (auto simp: py_sub_def as_float_def value_of_def split: if_splits)

lemma py_mul_value: "py_mul a b = Inr c \<Longrightarrow> value_of c = value_of a * value_of b"
  by (cases a; cases b)
     (auto simp: py_mul_def as_float_def value_of_def split: if_splits)

lemma py_add_value: "py_add a b = Inr c \<Longrightarrow> value_of c = value_of a + value_of b"
  by (cases a; cases b)
     (auto simp: py_add_def as_float_def value_of_def split: if_splits)

lemma py_arith_error: "py_arith iop fop a b = Inl e \<Longrightarrow> e = OverflowError"
  by (cases a; cases b) (auto simp: as_float_def split: if_splits)

lemma calibrateXY_py_value:
  assumes "calibrateXY_py g pt ref = Inr q"
  shows "value_of (fst q) =
           (value_of (fst pt) - real_of_int (fst (pixels_py (refPoint_py g)))) *
             value_of (fst (pixelsToTruthRatio_py g)) + value_of (fst (truth_py (refPoint_py g)))"
    and "value_of (snd q) =
           (value_of (snd pt) - real_of_int (snd (pixels_py (refPoint_py g)))) *
             value_of (snd (pixelsToTruthRatio_py g)) + value_of (snd (truth_py (refPoint_py g)))"
  using assms
  by (auto simp: calibrateXY_py_def value_of_def [of "PyInt _"] split: sum.splits
           dest!: py_sub_value py_mul_value py_add_value)

lemma calibrateXY_py_exact:
  "calibrateXY_py g pt ref = Inr q \<Longrightarrow>
   (value_of (fst q), value_of (snd q)) =
     calibrateXY (exact g) (value_of (fst pt), value_of (snd pt)) ref"
  by (simp add: calibrateXY_py_value calibrateXY_def exact_def)

lemma calibrateXY_py_error: "calibrateXY_py g pt ref = Inl e \<Longrightarrow> e = OverflowError"
  by (auto simp: calibrateXY_py_def py_sub_def py_mul_def py_add_def split: sum.splits
           dest: py_arith_error)

lemma calibrateXY_py_fst:
  assumes "calibrateXY_py g pt ref = Inr q" "calibrateXY_py g' pt' ref' = Inr q'"
    "fst pt = fst pt'" "fst (pixels_py (refPoint_py g)) = fst (pixels_py (refPoint_py g'))"
    "fst (truth_py (refPoint_py g)) = fst (truth_py (refPoint_py g'))"
    "fst (pixelsToTruthRatio_py g) = fst (pixelsToTruthRatio_py g')"
  shows "fst q = fst q'"
  using assms by (auto simp: calibrateXY_py_def split: sum.splits)

lemma calibrateXY_py_snd:
  assumes "calibrateXY_py g pt ref = Inr q" "calibrateXY_py g' pt' ref' = Inr q'"
    "snd pt = snd pt'" "snd (pixels_py (refPoint_py g)) = snd (pixels_py (refPoint_py g'))"
    "snd (truth_py (refPoint_py g)) = snd (truth_py (refPoint_py g'))"
    "snd (pixelsToTruthRatio_py g) = snd (pixelsToTruthRatio_py g')"
  shows "snd q = snd q'"
  using assms by (auto simp: calibrateXY_py_def split: sum.splits)

lemma calibrateXY_py_ints:
  assumes "truth_py (refPoint_py g) = (PyInt tx, PyInt ty)"
    "pixelsToTruthRatio_py g = (PyInt rx, PyInt ry)"
  shows "calibrateXY_py g (PyInt a, PyInt b) ref =
           Inr (PyInt ((a - fst (pixels_py (refPoint_py g))) * rx + tx),
                PyInt ((b - snd (pixels_py (refPoint_py g))) * ry + ty))"
  using assms by (simp add: calibrateXY_py_def py_sub_def py_mul_def py_add_def)

lemma calibrateXY_py_floats:
  assumes "truth_py (refPoint_py g) = (PyFloat tx, PyFloat ty)"
    "pixelsToTruthRatio_py g = (PyFloat rx, PyFloat ry)"
  shows "calibrateXY_py g (PyInt a, PyInt b) ref =
           (if float_fits (a - fst (pixels_py (refPoint_py g))) \<and>
               float_fits (b - snd (pixels_py (refPoint_py g)))
            then Inr (PyFloat (real_of_int (a - fst (pixels_py (refPoint_py g))) * rx + tx),
                      PyFloat (real_of_int (b - snd (pixels_py (refPoint_py g))) * ry + ty))
            else Inl OverflowError)"
    and "calibrateXY_py g (PyFloat u, PyFloat v) ref =
           (if float_fits (fst (pixels_py (refPoint_py g))) \<and>
               float_fits (snd (pixels_py (refPoint_py g)))
            then Inr (PyFloat ((u - real_of_int (fst (pixels_py (refPoint_py g)))) * rx + tx),
                      PyFloat ((v - real_of_int (snd (pixels_py (refPoint_py g)))) * ry + ty))
            else Inl OverflowError)"
  using assms by (simp_all add: calibrateXY_py_def py_sub_def py_mul_def py_add_def as_float_def)

text \<open>
  Claim C2, as the code has it. For every point and every state of the calibration
  constants, \<^verbatim>\<open>calibrateXY\<close>, when it returns, returns on each axis
  (pixel - reference pixel) * ratio + reference truth (floats taken as exact numbers), and
  the x coordinate of the result is the same whenever the x components of the point, of
  the reference pixel, of the reference truth and of the ratio are, and likewise for y.
  It has one failure mode: \<^verbatim>\<open>OverflowError\<close>, raised when an integer operand of magnitude
  at least \<open>2 ^ 1024 - 2 ^ 970\<close> meets a float operand and has to be converted. With
  integer constants (the initial ones) it returns for every integer point. With a float
  ratio and a float reference truth (after a calibration) it returns for an integer point
  exactly when both differences pixel - reference pixel are below that magnitude, and for
  a float point exactly when both coordinates of the reference pixel are. It has no side
  effect: the tracking block, which calls it for every box, leaves the calibration
  constants, the trackers and \<^verbatim>\<open>initBox\<close> as they were.
\<close>

theorem calibrateXY_py_affine_or_overflow:
  "(calibrateXY_py g pt ref = Inr q \<longrightarrow>
      value_of (fst q) =
        (value_of (fst pt) - real_of_int (fst (pixels_py (refPoint_py g)))) *
          value_of (fst (pixelsToTruthRatio_py g)) + value_of (fst (truth_py (refPoint_py g))) \<and>
      value_of (snd q) =
        (value_of (snd pt) - real_of_int (snd (pixels_py (refPoint_py g)))) *
          value_of (snd (pixelsToTruthRatio_py g)) + value_of (snd (truth_py (refPoint_py g))))
   \<and> (calibrateXY_py g pt ref = Inr q \<and> calibrateXY_py h pt' ref' = Inr q' \<and>
        fst pt = fst pt' \<and>
        fst (pixels_py (refPoint_py g)) = fst (pixels_py (refPoint_py h)) \<and>
        fst (truth_py (refPoint_py g)) = fst (truth_py (refPoint_py h)) \<and>
        fst (pixelsToTruthRatio_py g) = fst (pixelsToTruthRatio_py h)
        \<longrightarrow> fst q = fst q')
   \<and> (calibrateXY_py g pt ref = Inr q \<and> calibrateXY_py h pt' ref' = Inr q' \<and>
        snd pt = snd pt' \<and>
        snd (pixels_py (refPoint_py g)) = snd (pixels_py (refPoint_py h)) \<and>
        snd (truth_py (refPoint_py g)) = snd (truth_py (refPoint_py h)) \<and>
        snd (pixelsToTruthRatio_py g) = snd (pixelsToTruthRatio_py h)
        \<longrightarrow> snd q = snd q')
   \<and> (calibrateXY_py g pt ref = Inl e \<longrightarrow> e = OverflowError)
   \<and> (truth_py (refPoint_py g) = (PyInt tx, PyInt ty) \<and>
        pixelsToTruthRatio_py g = (PyInt rx, PyInt ry) \<longrightarrow>
        calibrateXY_py g (PyInt a, PyInt b) ref =
          Inr (PyInt ((a - fst (pixels_py (refPoint_py g))) * rx + tx),
               PyInt ((b - snd (pixels_py (refPoint_py g))) * ry + ty)))
   \<and> (truth_py (refPoint_py g) = (PyFloat fx, PyFloat fy) \<and>
        pixelsToTruthRatio_py g = (PyFloat kx, PyFloat ky) \<longrightarrow>
        calibrateXY_py g (PyInt a, PyInt b) ref =
          (if float_fits (a - fst (pixels_py (refPoint_py g))) \<and>
              float_fits (b - snd (pixels_py (refPoint_py g)))
           then Inr (PyFloat (real_of_int (a - fst (pixels_py (refPoint_py g))) * kx + fx),
                     PyFloat (real_of_int (b - snd (pixels_py (refPoint_py g))) * ky + fy))
           else Inl OverflowError) \<and>
        calibrateXY_py g (PyFloat u, PyFloat v) ref =
          (if float_fits (fst (pixels_py (refPoint_py g))) \<and>
              float_fits (snd (pixels_py (refPoint_py g)))
           then Inr (PyFloat ((u - real_of_int (fst (pixels_py (refPoint_py g)))) * kx + fx),
                     PyFloat ((v - real_of_int (snd (pixels_py (refPoint_py g)))) * ky + fy))
           else Inl OverflowError))
   \<and> calibrationRef (fst (snd (tracking_block s upd))) = calibrationRef s
   \<and> trackers (fst (snd (tracking_block s upd))) = trackers s
   \<and> initBox (fst (snd (tracking_block s upd))) = initBox s"
proof -
  have unchanged:
    "calibrationRef (fst (snd (tracking_block s upd))) = calibrationRef s \<and>
     trackers (fst (snd (tracking_block s upd))) = trackers s \<and>
     initBox (fst (snd (tracking_block s upd))) = initBox s"
    by (cases upd) (auto simp: tracking_block_def Let_def split: option.splits)
  show ?thesis
    using calibrateXY_py_value(1) [where g = g and pt = pt and ref = ref and q = q]
      calibrateXY_py_value(2) [where g = g and pt = pt and ref = ref and q = q]
      calibrateXY_py_fst [where g = g and pt = pt and ref = ref and q = q and g' = h and
                            pt' = pt' and ref' = ref' and q' = q']
      calibrateXY_py_snd [where g = g and pt = pt and ref = ref and q = q and g' = h and
                            pt' = pt' and ref' = ref' and q' = q']
      calibrateXY_py_error [where g = g and pt = pt and ref = ref and e = e]
      calibrateXY_py_ints [where g = g and tx = tx and ty = ty and rx = rx and ry = ry and
                             a = a and b = b and ref = ref]
      calibrateXY_py_floats(1) [where g = g and tx = fx and ty = fy and rx = kx and ry = ky and
                                  a = a and b = b and ref = ref]
      calibrateXY_py_floats(2) [where g = g and tx = fx and ty = fy and rx = kx and ry = ky and
                                  u = u and v = v and ref = ref]
      unchanged
    by blast
qed

theorem calibrateXY_py_affine_or_overflow_witness:
  "calibrateXY_py
     \<lparr>refPoint_py = \<lparr>pixels_py = (0, 0), truth_py = (PyFloat 0, PyFloat 0)\<rparr>,
      pixelsToTruthRatio_py = (PyFloat (1 / 10), PyFloat (1 / 10))\<rparr>
     (PyInt 50, PyInt 25) () = Inr (PyFloat 5, PyFloat (5 / 2))
   \<and> value_of (PyFloat 5) = (value_of (PyInt 50) - real_of_int 0) * value_of (PyFloat (1 / 10))
         + value_of (PyFloat 0)
   \<and> calibrateXY_py calibrationRef_default_py (PyInt (10 ^ 400), PyInt 20) () =
       Inr (PyInt (10 ^ 400), PyInt 20)"
proof -
  let ?g = "\<lparr>refPoint_py = \<lparr>pixels_py = (0, 0), truth_py = (PyFloat 0, PyFloat 0)\<rparr>,
      pixelsToTruthRatio_py = (PyFloat (1 / 10), PyFloat (1 / 10))\<rparr>"
  have fits: "float_fits (50 - 0)" "float_fits (25 - 0)"
    by (simp_all add: float_fits_def)
  note inst = calibrateXY_py_affine_or_overflow
            [where g = ?g and pt = "(PyInt 50, PyInt 25)" and ref = "()" and
               q = "(PyFloat 5, PyFloat (5 / 2))" and h = ?g and pt' = "(PyInt 50, PyInt 25)" and
               ref' = "()" and q' = "(PyFloat 5, PyFloat (5 / 2))" and e = OverflowError and
               tx = 0 and ty = 0 and rx = 1 and ry = 1 and
               fx = 0 and fy = 0 and kx = "1 / 10" and ky = "1 / 10" and
               a = 50 and b = 25 and u = 50 and v = 25 and s = session_start and
               upd = "(True, [])"]
  have A: "calibrateXY_py ?g (PyInt 50, PyInt 25) () = Inr (PyFloat 5, PyFloat (5 / 2))"
    using inst fits by simp
  have B: "value_of (PyFloat 5) =
             (value_of (PyInt 50) - real_of_int 0) * value_of (PyFloat (1 / 10))
               + value_of (PyFloat 0)"
    using inst A by simp
  have C: "calibrateXY_py calibrationRef_default_py (PyInt (10 ^ 400), PyInt 20) () =
             Inr (PyInt (10 ^ 400), PyInt 20)"
    using calibrateXY_py_affine_or_overflow
            [where g = calibrationRef_default_py and pt = "(PyInt 50, PyInt 25)" and ref = "()" and
               q = "(PyInt 50, PyInt 25)" and h = ?g and pt' = "(PyInt 50, PyInt 25)" and
               ref' = "()" and q' = "(PyFloat 5, PyFloat (5 / 2))" and e = OverflowError and
               tx = 0 and ty = 0 and rx = 1 and ry = 1 and
               fx = 0 and fy = 0 and kx = "1 / 10" and ky = "1 / 10" and
               a = "10 ^ 400" and b = 20 and u = 50 and v = 25 and s = session_start and
               upd = "(True, [])"]
    by (simp add: calibrationRef_default_py_def)
  from A B C show ?thesis by (intro conjI)
qed

text \<open>
  With the constants of a calibration (ratio 0.1 on both axes) the finite integer point
  \<open>(10 ^ 400, 0)\<close> makes \<^verbatim>\<open>calibrateXY\<close> raise.
\<close>

theorem calibrateXY_py_overflow_counterexample:
  "calibrateXY_py
     \<lparr>refPoint_py = \<lparr>pixels_py = (0, 0), truth_py = (PyFloat 0, PyFloat 0)\<rparr>,
      pixelsToTruthRatio_py = (PyFloat (1 / 10), PyFloat (1 / 10))\<rparr>
     (PyInt (10 ^ 400), PyInt 0) () = Inl OverflowError"
  by (simp add: calibrateXY_py_def py_sub_def py_mul_def py_add_def as_float_def
        float_fits_def)

section \<open>What the loop over the boxes computes\<close>

text \<open>
  One pass of the loop body from a state in which \<^verbatim>\<open>realPoints\<close> holds the calibrated
  centres of the first \<open>n\<close> boxes appends the centre of box \<open>n\<close> and prints its lines.
\<close>

lemma box_step_unfold:
  "box_step g boxes (rp, out) i =
     (rp @ [realXY_of g (boxes ! i)],
      out @ Object i (fst (realXY_of g (boxes ! i))) (snd (realXY_of g (boxes ! i))) #
        map (\<lambda>j. Distance j i
                   (fst (realXY_of g (boxes ! i)) - fst ((rp @ [realXY_of g (boxes ! i)]) ! j))
                   (snd (realXY_of g (boxes ! i)) - snd ((rp @ [realXY_of g (boxes ! i)]) ! j)))
          [0..<length rp])"
  by (simp add: box_step_def realXY_of_def Let_def split: prod.splits)

lemma box_step_eq:
  assumes "n < length boxes"
  shows "box_step g boxes (map (realXY_of g) (take n boxes), out) n =
           (map (realXY_of g) (take (Suc n) boxes),
            out @ lines_of (map (realXY_of g) boxes) n)"
proof -
  let ?ps = "map (realXY_of g) boxes"
  let ?rp = "map (realXY_of g) (take n boxes)"
  let ?r = "realXY_of g (boxes ! n)"
  have tk: "?rp @ [?r] = map (realXY_of g) (take (Suc n) boxes)"
    using assms by (simp add: take_Suc_conv_app_nth)
  have len: "length ?rp = n"
    using assms by simp
  have psn: "?ps ! n = ?r"
    using assms by simp
  have nth: "map (realXY_of g) (take (Suc n) boxes) ! j = ?ps ! j" if "j < n" for j
    using that assms by simp
  have m: "map (\<lambda>j. Distance j n
                  (fst ?r - fst (map (realXY_of g) (take (Suc n) boxes) ! j))
                  (snd ?r - snd (map (realXY_of g) (take (Suc n) boxes) ! j))) [0..<n]
         = map (\<lambda>j. Distance j n (fst ?r - fst (?ps ! j)) (snd ?r - snd (?ps ! j))) [0..<n]"
    by (rule map_cong) (simp_all add: nth)
  have "box_step g boxes (?rp, out) n =
          (map (realXY_of g) (take (Suc n) boxes),
           out @ Object n (fst ?r) (snd ?r) #
             map (\<lambda>j. Distance j n
                  (fst ?r - fst (map (realXY_of g) (take (Suc n) boxes) ! j))
                  (snd ?r - snd (map (realXY_of g) (take (Suc n) boxes) ! j))) [0..<n])"
    by (simp only: box_step_unfold len tk)
  then show ?thesis
    by (simp only: m lines_of_def psn)
qed

lemma box_fold:
  "n \<le> length boxes \<Longrightarrow>
   foldl (box_step g boxes) ([], []) [0..<n] =
     (map (realXY_of g) (take n boxes),
      concat (map (lines_of (map (realXY_of g) boxes)) [0..<n]))"
proof (induction n)
  case 0
  show ?case by simp
next
  case (Suc n)
  then have n: "n < length boxes" by simp
  from Suc have IH: "foldl (box_step g boxes) ([], []) [0..<n] =
     (map (realXY_of g) (take n boxes),
      concat (map (lines_of (map (realXY_of g) boxes)) [0..<n]))" by simp
  show ?case
    by (simp only: upt_Suc_append [OF le0] foldl_append IH foldl.simps box_step_eq [OF n]
          map_append concat_append list.map concat.simps append_Nil2)
qed

lemma box_loop_eq:
  "box_loop g boxes =
     (map (realXY_of g) boxes,
      concat (map (lines_of (map (realXY_of g) boxes)) [0..<length boxes]))"
  by (simp add: box_loop_def box_fold)

lemma positions_append: "positions (xs @ ys) = positions xs @ positions ys"
  by (induction xs rule: positions.induct) simp_all

lemma distances_append: "distances (xs @ ys) = distances xs @ distances ys"
  by (induction xs rule: distances.induct) simp_all

lemma positions_Distance: "positions (map (\<lambda>j. Distance j i (f j) (h j)) js) = []"
  by (induction js) simp_all

lemma distances_Distance:
  "distances (map (\<lambda>j. Distance j i (f j) (h j)) js) = map (\<lambda>j. ((j, i), (f j, h j))) js"
  by (induction js) simp_all

lemma positions_lines_of: "positions (lines_of ps i) = [(i, fst (ps ! i), snd (ps ! i))]"
  by (simp add: lines_of_def positions_Distance)

lemma distances_lines_of:
  "distances (lines_of ps i) =
     map (\<lambda>j. ((j, i), (fst (ps ! i) - fst (ps ! j), snd (ps ! i) - snd (ps ! j)))) [0..<i]"
  by (simp add: lines_of_def distances_Distance)

lemma positions_concat: "positions (concat xss) = concat (map positions xss)"
  by (induction xss) (simp_all add: positions_append)

lemma distances_concat: "distances (concat xss) = concat (map distances xss)"
  by (induction xss) (simp_all add: distances_append)

lemma positions_box_loop:
  "positions (snd (box_loop g boxes)) =
     map (\<lambda>i. (i, fst (map (realXY_of g) boxes ! i), snd (map (realXY_of g) boxes ! i)))
       [0..<length boxes]"
  by (simp add: box_loop_eq positions_concat o_def positions_lines_of)

lemma distances_box_loop:
  "distances (snd (box_loop g boxes)) =
     concat (map (\<lambda>i. map (\<lambda>j. ((j, i),
         (fst (map (realXY_of g) boxes ! i) - fst (map (realXY_of g) boxes ! j),
          snd (map (realXY_of g) boxes ! i) - snd (map (realXY_of g) boxes ! j)))) [0..<i])
       [0..<length boxes])"
  by (simp add: box_loop_eq distances_concat o_def distances_lines_of)


lemma box_loop_fst: "fst (box_loop g boxes) = map (realXY_of g) boxes"
  by (simp add: box_loop_eq)

lemma pair_labels:
  "map fst (distances (snd (box_loop g boxes))) =
     concat (map (\<lambda>j. map (\<lambda>i. (i, j)) [0..<j]) [0..<length boxes])"
  by (simp add: distances_box_loop map_concat o_def)

lemma set_pair_list:
  "set (concat (map (\<lambda>j. map (\<lambda>i. (i, j)) [0..<j]) [0..<n])) = {(i, j). i < j \<and> j < n}"
  by auto

lemma distinct_pair_list:
  "distinct (concat (map (\<lambda>j. map (\<lambda>i. (i, j :: nat)) [0..<j]) [0..<n :: nat]))"
proof (induction n)
  case 0
  show ?case by simp
next
  case (Suc n)
  have "distinct (map (\<lambda>i. (i, n)) [0..<n])"
    by (simp add: distinct_map inj_on_def)
  with Suc show ?case
    by (auto simp: set_pair_list)
qed

lemma distance_entries_mem:
  assumes "i < j" "j < length boxes"
  shows "((i, j), (fst (fst (box_loop g boxes) ! j) - fst (fst (box_loop g boxes) ! i),
                  snd (fst (box_loop g boxes) ! j) - snd (fst (box_loop g boxes) ! i)))
           \<in> set (distances (snd (box_loop g boxes)))"
  using assms by (auto simp: distances_box_loop box_loop_fst intro!: bexI [of _ j] image_eqI [of _ _ i])

lemma distance_lookup:
  assumes "i < j" "j < length boxes"
  shows "map_of (distances (snd (box_loop g boxes))) (i, j) =
           Some (fst (fst (box_loop g boxes) ! j) - fst (fst (box_loop g boxes) ! i),
                 snd (fst (box_loop g boxes) ! j) - snd (fst (box_loop g boxes) ! i))"
proof (rule map_of_is_SomeI)
  show "distinct (map fst (distances (snd (box_loop g boxes))))"
    by (simp only: pair_labels distinct_pair_list)
  show "((i, j), (fst (fst (box_loop g boxes) ! j) - fst (fst (box_loop g boxes) ! i),
                  snd (fst (box_loop g boxes) ! j) - snd (fst (box_loop g boxes) ! i)))
           \<in> set (distances (snd (box_loop g boxes)))"
    by (rule distance_entries_mem [OF assms])
qed

text \<open>
  Claim C6, as the code has it. For each box in the order of \<^verbatim>\<open>boxes\<close>, the loop first
  makes the four entries integers with \<^verbatim>\<open>int\<close> (truncation towards zero), giving
  \<open>(x, y, w, h)\<close>, and leaves in \<^verbatim>\<open>realPoints\<close> the calibration of the centre
  \<open>(x + w div 2, y + h div 2)\<close>, where \<open>div\<close> is floor division; the positions printed are
  these points, numbered from 0 in the same order. With the starting calibration the box
  (10,10,20,20) gives the position (20, 20), and so does (10,10,21,21); the box
  (120.5, 60.75, 21, 21.5) gives (130, 70), and with reference pixel (100,50), reference
  truth (1,2) and ratio (0.1, 0.2) it gives (4, 6).
\<close>

theorem positions_follow_boxes:
  "fst (box_loop g boxes) =
     map (\<lambda>(bx, by, bw, bh).
            calibrateXY g (real_of_int (py_int bx + py_int bw div 2),
                           real_of_int (py_int by + py_int bh div 2)) g) boxes
   \<and> positions (snd (box_loop g boxes)) =
     map (\<lambda>i. (i, fst (fst (box_loop g boxes) ! i), snd (fst (box_loop g boxes) ! i)))
       [0..<length boxes]
   \<and> positions (snd (box_loop calibrationRef_default [(10, 10, 20, 20)])) = [(0, 20, 20)]
   \<and> positions (snd (box_loop calibrationRef_default [(10, 10, 21, 21)])) = [(0, 20, 20)]
   \<and> positions (snd (box_loop calibrationRef_default [(120.5, 60.75, 21, 21.5)])) =
       [(0, 130, 70)]
   \<and> positions (snd (box_loop
         \<lparr>refPoint = \<lparr>pixels = (100, 50), truth = (1, 2)\<rparr>,
          pixelsToTruthRatio = (1 / 10, 1 / 5)\<rparr> [(120.5, 60.75, 21, 21.5)])) = [(0, 4, 6)]"
proof -
  have "realXY_of g =
          (\<lambda>(bx, by, bw, bh).
             calibrateXY g (real_of_int (py_int bx + py_int bw div 2),
                           real_of_int (py_int by + py_int bh div 2)) g)"
    by (simp add: fun_eq_iff realXY_of_def)
  then have "fst (box_loop g boxes) =
     map (\<lambda>(bx, by, bw, bh).
            calibrateXY g (real_of_int (py_int bx + py_int bw div 2),
                           real_of_int (py_int by + py_int bh div 2)) g) boxes"
    by (simp add: box_loop_fst)
  moreover have "positions (snd (box_loop g boxes)) =
     map (\<lambda>i. (i, fst (fst (box_loop g boxes) ! i), snd (fst (box_loop g boxes) ! i)))
       [0..<length boxes]"
    by (simp only: positions_box_loop box_loop_fst)
  moreover have
    "positions (snd (box_loop calibrationRef_default [(10, 10, 20, 20)])) = [(0, 20, 20)]"
    by (simp add: positions_box_loop realXY_of_def calibrateXY_def
          calibrationRef_default_def py_int_def)
  moreover have
    "positions (snd (box_loop calibrationRef_default [(10, 10, 21, 21)])) = [(0, 20, 20)]"
    by (simp add: positions_box_loop realXY_of_def calibrateXY_def
          calibrationRef_default_def py_int_def)
  moreover have
    "positions (snd (box_loop calibrationRef_default [(120.5, 60.75, 21, 21.5)])) =
       [(0, 130, 70)]"
    by (simp add: positions_box_loop realXY_of_def calibrateXY_def
          calibrationRef_default_def py_int_def)
  moreover have
    "positions (snd (box_loop
         \<lparr>refPoint = \<lparr>pixels = (100, 50), truth = (1, 2)\<rparr>,
          pixelsToTruthRatio = (1 / 10, 1 / 5)\<rparr> [(120.5, 60.75, 21, 21.5)])) = [(0, 4, 6)]"
    by (simp add: positions_box_loop realXY_of_def calibrateXY_def py_int_def)
  ultimately show ?thesis by (intro conjI)
qed

text \<open>
  The centre is not \<open>(x + w/2, y + h/2)\<close> with floor division on width and height for
  every box a tracker returns: for the box (120.5, 60.75, 21, 21.5) that would be
  (130.5, 70.75), and the position is (130, 70).
\<close>

theorem positions_fractional_box_counterexample:
  "positions (snd (box_loop calibrationRef_default [(120.5, 60.75, 21, 21.5)])) =
     [(0, 130, 70)]
   \<and> (120.5 + real_of_int \<lfloor>21 / 2 :: real\<rfloor>, 60.75 + real_of_int \<lfloor>21.5 / 2 :: real\<rfloor>) =
       (130.5 :: real, 70.75 :: real)
   \<and> positions (snd (box_loop calibrationRef_default [(120.5, 60.75, 21, 21.5)])) \<noteq>
       [(0, 120.5 + real_of_int \<lfloor>21 / 2 :: real\<rfloor>, 60.75 + real_of_int \<lfloor>21.5 / 2 :: real\<rfloor>)]"
  by (simp add: positions_box_loop realXY_of_def calibrateXY_def
        calibrationRef_default_def py_int_def)

text \<open>
  Claim C7, as the code has it. The labels of the distance lines are exactly the pairs
  \<open>(i, j)\<close> with \<open>i < j\<close> below the number of boxes, each once and with the smaller index
  first; they are printed in ascending order of the larger index \<open>j\<close> and, for one \<open>j\<close>,
  in ascending order of the smaller index \<open>i\<close>. For four boxes the order is
  (0,1), (0,2), (1,2), (0,3), (1,3), (2,3).
\<close>

theorem distance_pairs_order:
  "map fst (distances (snd (box_loop g boxes))) =
     concat (map (\<lambda>j. map (\<lambda>i. (i, j)) [0..<j]) [0..<length boxes])
   \<and> distinct (map fst (distances (snd (box_loop g boxes))))
   \<and> set (map fst (distances (snd (box_loop g boxes)))) = {(i, j). i < j \<and> j < length boxes}
   \<and> map fst (distances (snd (box_loop g [b0, b1, b2, b3]))) =
       [(0, 1), (0, 2), (1, 2), (0, 3), (1, 3), (2, 3)]"
proof -
  have "set (map fst (distances (snd (box_loop g boxes)))) =
          {(i, j). i < j \<and> j < length boxes}"
    by (simp only: pair_labels set_pair_list)
  moreover have "map fst (distances (snd (box_loop g [b0, b1, b2, b3]))) =
       [(0, 1), (0, 2), (1, 2), (0, 3), (1, 3), (2, 3)]"
    by (simp add: pair_labels upt_rec)
  moreover have "distinct (map fst (distances (snd (box_loop g boxes))))"
    by (simp only: pair_labels distinct_pair_list)
  ultimately show ?thesis
    using pair_labels [of g boxes] by (intro conjI)
qed

text \<open>
  The claim's order, ascending in the smaller index first, is not the order printed: for
  four boxes the third pair printed is (1,2), not (0,3).
\<close>

theorem distance_pairs_order_counterexample:
  "map fst (distances (snd (box_loop calibrationRef_default
      [(0, 0, 2, 2), (10, 0, 2, 2), (20, 0, 2, 2), (30, 0, 2, 2)]))) \<noteq>
     [(0, 1), (0, 2), (0, 3), (1, 2), (1, 3), (2, 3)]"
  by (simp add: pair_labels upt_rec)

text \<open>
  Claim C1, as the code has it. For \<open>i < j\<close> below the number of boxes, the distance line
  labelled \<open>(i, j)\<close> carries position \<open>j\<close> minus position \<open>i\<close> on each axis: the later
  object's calibrated centre minus the earlier one's. With the starting calibration and
  boxes centred at (20,20) and (60,60), the pair (0,1) carries (40, 40).
\<close>

theorem distance_is_later_minus_earlier:
  "(i < j \<and> j < length boxes \<longrightarrow>
      map_of (distances (snd (box_loop g boxes))) (i, j) =
        Some (fst (fst (box_loop g boxes) ! j) - fst (fst (box_loop g boxes) ! i),
              snd (fst (box_loop g boxes) ! j) - snd (fst (box_loop g boxes) ! i)))
   \<and> distances (snd (box_loop calibrationRef_default [(10, 10, 20, 20), (50, 50, 20, 20)])) =
       [((0, 1), (40, 40))]"
proof -
  have "distances (snd (box_loop calibrationRef_default [(10, 10, 20, 20), (50, 50, 20, 20)])) =
       [((0, 1), (40, 40))]"
    by (simp add: distances_box_loop realXY_of_def calibrateXY_def
          calibrationRef_default_def py_int_def)
  then show ?thesis
    using distance_lookup [of i j boxes g] by simp
qed

theorem distance_is_later_minus_earlier_witness:
  "(0 :: nat) < 1 \<and> 1 < length [(10, 10, 20, 20), (50, 50, 20, 20) :: box] \<and>
   map_of (distances (snd (box_loop calibrationRef_default
             [(10, 10, 20, 20), (50, 50, 20, 20)]))) (0, 1) = Some (60 - 20, 60 - 20)"
  using distance_is_later_minus_earlier
          [of 0 1 "[(10, 10, 20, 20), (50, 50, 20, 20)]" calibrationRef_default]
  by (simp add: box_loop_fst realXY_of_def calibrateXY_def calibrationRef_default_def
        py_int_def)

text \<open>
  In the scenario of the claim the positions are (20,20) and (60,60); the pair (0,1)
  carries (40, 40), not position 0 minus position 1, which is (-40, -40).
\<close>

theorem distance_sign_counterexample:
  "positions (snd (box_loop calibrationRef_default [(10, 10, 20, 20), (50, 50, 20, 20)])) =
     [(0, 20, 20), (1, 60, 60)]
   \<and> map_of (distances (snd (box_loop calibrationRef_default
               [(10, 10, 20, 20), (50, 50, 20, 20)]))) (0, 1) = Some (40, 40)
   \<and> map_of (distances (snd (box_loop calibrationRef_default
               [(10, 10, 20, 20), (50, 50, 20, 20)]))) (0, 1) \<noteq> Some (20 - 60, 20 - 60)"
  by (simp add: positions_box_loop distances_box_loop realXY_of_def calibrateXY_def
        calibrationRef_default_def py_int_def)

section \<open>The session loop\<close>

subsection \<open>The invariant, and one pass of the loop\<close>

lemma ord_keys: "ord CHR ''s'' = 115" "ord CHR ''c'' = 99" "ord CHR ''q'' = 113"
  by (simp_all add: ord_def)

lemma session_inv_start: "session_inv session_start"
  by (simp add: session_inv_def session_start_def)

lemma calibrate_fields:
  "calibrate s calBox a = (st, s') \<Longrightarrow>
     initBox s' = initBox s \<and> trackers s' = trackers s \<and> (fps s \<noteq> None \<longrightarrow> fps s' \<noteq> None)"
  by (cases calBox)
     (auto simp: calibrate_def Let_def split: option.splits if_splits)

lemma tracking_block_idle:
  "initBox s = None \<Longrightarrow> tracking_block s upd = (Running, s, [])"
  by (simp add: tracking_block_def)

lemma tracking_block_tracking:
  "initBox s = Some b \<Longrightarrow> fps s = Some n \<Longrightarrow>
   tracking_block s upd =
     (Running, s\<lparr>fps := Some (Suc n)\<rparr>,
      Newlines # snd (box_loop (calibrationRef s) (snd upd)) @ [Success (fst upd)])"
  by (cases upd) (simp add: tracking_block_def)

lemma tracking_block_fields:
  "tracking_block s upd = (st, s1, out) \<Longrightarrow>
     initBox s1 = initBox s \<and> trackers s1 = trackers s \<and> calibrationRef s1 = calibrationRef s \<and>
     (fps s \<noteq> None \<longrightarrow> fps s1 \<noteq> None)"
  by (cases upd) (auto simp: tracking_block_def Let_def split: option.splits)

lemma iteration_inv:
  assumes "iteration s inp = (st, s', out)" "session_inv s"
  shows "session_inv s'"
proof (cases "vs_read inp")
  case None
  with assms show ?thesis by (simp add: iteration_def)
next
  case (Some f)
  obtain st1 s1 out1 where tb: "tracking_block s (update_result inp) = (st1, s1, out1)"
    by (cases "tracking_block s (update_result inp)") auto
  obtain st2 s2 where cal: "calibrate s1 (selectROI inp) (float_inputs inp) = (st2, s2)"
    by (cases "calibrate s1 (selectROI inp) (float_inputs inp)") auto
  from tracking_block_fields [OF tb] assms(2) have inv1: "session_inv s1"
    by (auto simp: session_inv_def)
  from calibrate_fields [OF cal] inv1 have inv2: "session_inv s2"
    by (auto simp: session_inv_def)
  have inv3: "session_inv (add_region s1 (selectROI inp))"
    by (simp add: session_inv_def add_region_def)
  from assms(1) Some tb cal inv1 inv2 inv3 show ?thesis
    by (auto simp: iteration_def Let_def split: if_splits)
qed

lemma iteration_no_frame:
  "vs_read inp = None \<Longrightarrow> iteration s inp = (Stopped, s, [])"
  by (simp add: iteration_def)

lemma iteration_idle:
  assumes "vs_read inp = Some f" "initBox s = None"
  shows "snd (snd (iteration s inp)) = []"
    and "waitKey inp AND 255 = ord CHR ''s'' \<Longrightarrow>
           iteration s inp = (Running, add_region s (selectROI inp), [])"
    and "waitKey inp AND 255 \<noteq> ord CHR ''s'' \<Longrightarrow> initBox (fst (snd (iteration s inp))) = None"
proof -
  obtain st2 s2 where cal: "calibrate s (selectROI inp) (float_inputs inp) = (st2, s2)"
    by (cases "calibrate s (selectROI inp) (float_inputs inp)") auto
  note f = calibrate_fields [OF cal]
  show "snd (snd (iteration s inp)) = []"
    using assms cal by (simp add: iteration_def tracking_block_idle Let_def)
  show "waitKey inp AND 255 = ord CHR ''s'' \<Longrightarrow>
           iteration s inp = (Running, add_region s (selectROI inp), [])"
    using assms by (simp add: iteration_def tracking_block_idle Let_def)
  show "waitKey inp AND 255 \<noteq> ord CHR ''s'' \<Longrightarrow> initBox (fst (snd (iteration s inp))) = None"
    using assms cal f by (simp add: iteration_def tracking_block_idle Let_def)
qed

lemma iteration_tracking:
  assumes "vs_read inp = Some f" "initBox s = Some b" "fps s = Some n"
  shows "snd (snd (iteration s inp)) =
           Newlines # snd (box_loop (calibrationRef s) (snd (update_result inp))) @
             [Success (fst (update_result inp))]"
    and "initBox (fst (snd (iteration s inp))) \<noteq> None"
proof -
  let ?s1 = "s\<lparr>fps := Some (Suc n)\<rparr>"
  obtain st2 s2 where cal: "calibrate ?s1 (selectROI inp) (float_inputs inp) = (st2, s2)"
    by (cases "calibrate ?s1 (selectROI inp) (float_inputs inp)") auto
  note f = calibrate_fields [OF cal]
  show "snd (snd (iteration s inp)) =
           Newlines # snd (box_loop (calibrationRef s) (snd (update_result inp))) @
             [Success (fst (update_result inp))]"
    using assms cal by (simp add: iteration_def tracking_block_tracking Let_def)
  show "initBox (fst (snd (iteration s inp))) \<noteq> None"
    using assms cal f
    by (simp add: iteration_def tracking_block_tracking Let_def add_region_def
          del: not_None_eq)
qed


lemma report_iff:
  assumes "session_inv s"
  shows "(snd (snd (iteration s inp)) \<noteq> []) = (vs_read inp \<noteq> None \<and> initBox s \<noteq> None)"
proof (cases "vs_read inp")
  case None
  then show ?thesis by (simp add: iteration_no_frame)
next
  case (Some f)
  show ?thesis
  proof (cases "initBox s")
    case None
    with Some iteration_idle(1) [of inp f s] show ?thesis by simp
  next
    case (Some b)
    with assms obtain n where "fps s = Some n"
      by (auto simp: session_inv_def)
    with Some \<open>vs_read inp = Some f\<close> iteration_tracking(1) [of inp f s b n]
    show ?thesis by simp
  qed
qed

lemma iteration_running:
  assumes "iteration s inp = (Running, s1, out)" "session_inv s"
  shows "vs_read inp \<noteq> None"
    and "(initBox s1 \<noteq> None) = (initBox s \<noteq> None \<or> waitKey inp AND 255 = ord CHR ''s'')"
proof -
  show f: "vs_read inp \<noteq> None"
    using assms(1) by (cases "vs_read inp") (simp_all add: iteration_def)
  then obtain fr where fr: "vs_read inp = Some fr" by auto
  show "(initBox s1 \<noteq> None) = (initBox s \<noteq> None \<or> waitKey inp AND 255 = ord CHR ''s'')"
  proof (cases "initBox s")
    case None
    show ?thesis
    proof (cases "waitKey inp AND 255 = ord CHR ''s''")
      case True
      with iteration_idle(2) [OF fr None] assms(1) show ?thesis
        by (simp add: add_region_def)
    next
      case False
      with iteration_idle(3) [OF fr None] assms(1) None show ?thesis
        by simp
    qed
  next
    case (Some b)
    with assms(2) obtain n where "fps s = Some n"
      by (auto simp: session_inv_def)
    with iteration_tracking(2) [OF fr Some] assms(1) Some show ?thesis
      by simp
  qed
qed

lemma run_reports:
  assumes "run s inps = (st, s', outs)" "session_inv s"
  shows "length outs \<le> length inps \<and>
         (\<forall>k<length outs.
            (outs ! k \<noteq> []) =
            (vs_read (inps ! k) \<noteq> None \<and>
             (initBox s \<noteq> None \<or> (\<exists>m<k. waitKey (inps ! m) AND 255 = ord CHR ''s''))))"
  using assms
proof (induction inps arbitrary: s st s' outs)
  case Nil
  then show ?case by simp
next
  case (Cons inp inps)
  obtain st1 s1 out where it: "iteration s inp = (st1, s1, out)"
    by (cases "iteration s inp") auto
  have out: "(out \<noteq> []) = (vs_read inp \<noteq> None \<and> initBox s \<noteq> None)"
    using report_iff [OF Cons.prems(2), of inp] it by simp
  show ?case
  proof (cases "st1 = Running")
    case False
    with Cons.prems(1) it have "outs = [out]" by simp
    with out show ?thesis by simp
  next
    case True
    obtain st2 s2 outs' where r: "run s1 inps = (st2, s2, outs')"
      by (cases "run s1 inps") auto
    with Cons.prems(1) it True have outs: "outs = out # outs'" by simp
    from it True have it': "iteration s inp = (Running, s1, out)" by simp
    have inv1: "session_inv s1"
      by (rule iteration_inv [OF it Cons.prems(2)])
    note IH = Cons.IH [OF r inv1]
    note step = iteration_running(2) [OF it' Cons.prems(2)]
    have "(outs ! k \<noteq> []) =
            (vs_read ((inp # inps) ! k) \<noteq> None \<and>
             (initBox s \<noteq> None \<or>
              (\<exists>m<k. waitKey ((inp # inps) ! m) AND 255 = ord CHR ''s'')))"
      if k: "k < length outs" for k
    proof (cases k)
      case 0
      with outs out show ?thesis by simp
    next
      case (Suc k')
      with k outs have k': "k' < length outs'" by simp
      have ex: "(\<exists>m<Suc k'. waitKey ((inp # inps) ! m) AND 255 = ord CHR ''s'') =
                  (waitKey inp AND 255 = ord CHR ''s'' \<or>
                   (\<exists>m<k'. waitKey (inps ! m) AND 255 = ord CHR ''s''))"
        by (simp add: Ex_less_Suc2 del: not_None_eq)
      from IH k' have "(outs' ! k' \<noteq> []) =
            (vs_read (inps ! k') \<noteq> None \<and>
             (initBox s1 \<noteq> None \<or> (\<exists>m<k'. waitKey (inps ! m) AND 255 = ord CHR ''s'')))"
        by blast
      then show ?thesis
        unfolding Suc outs ex step by (simp del: not_None_eq)
    qed
    moreover from IH outs have "length outs \<le> length (inp # inps)" by simp
    ultimately show ?thesis by blast
  qed
qed

lemma run_inv:
  "run s inps = (st, s', outs) \<Longrightarrow> session_inv s \<Longrightarrow> session_inv s'"
proof (induction inps arbitrary: s st s' outs)
  case Nil
  then show ?case by simp
next
  case (Cons inp inps)
  obtain st1 s1 out where it: "iteration s inp = (st1, s1, out)"
    by (cases "iteration s inp") auto
  have inv1: "session_inv s1"
    by (rule iteration_inv [OF it Cons.prems(2)])
  show ?case
  proof (cases "st1 = Running")
    case False
    with Cons.prems(1) it inv1 show ?thesis by simp
  next
    case True
    obtain st2 s2 outs' where r: "run s1 inps = (st2, s2, outs')"
      by (cases "run s1 inps") auto
    with Cons.prems(1) it True have "s' = s2" by simp
    with Cons.IH [OF r inv1] show ?thesis by simp
  qed
qed

lemma iteration_trackers:
  "\<exists>ys. trackers (fst (snd (iteration s inp))) = trackers s @ ys"
proof (cases "vs_read inp")
  case None
  then show ?thesis by (simp add: iteration_no_frame)
next
  case (Some f)
  obtain st1 s1 out1 where tb: "tracking_block s (update_result inp) = (st1, s1, out1)"
    by (cases "tracking_block s (update_result inp)") auto
  obtain st2 s2 where cal: "calibrate s1 (selectROI inp) (float_inputs inp) = (st2, s2)"
    by (cases "calibrate s1 (selectROI inp) (float_inputs inp)") auto
  from tracking_block_fields [OF tb] calibrate_fields [OF cal] Some tb cal show ?thesis
    by (simp add: iteration_def Let_def add_region_def)
qed

lemma run_trackers:
  "\<exists>ys. trackers (fst (snd (run s inps))) = trackers s @ ys"
proof (induction inps arbitrary: s)
  case Nil
  show ?case by simp
next
  case (Cons inp inps)
  obtain st1 s1 out where it: "iteration s inp = (st1, s1, out)"
    by (cases "iteration s inp") auto
  from iteration_trackers [of s inp] it obtain ys where ys: "trackers s1 = trackers s @ ys"
    by auto
  show ?case
  proof (cases "st1 = Running")
    case False
    with it ys show ?thesis by simp
  next
    case True
    from Cons.IH [of s1] obtain zs where "trackers (fst (snd (run s1 inps))) = trackers s1 @ zs"
      by auto
    with it True ys show ?thesis
      by (cases "run s1 inps") simp
  qed
qed

subsection \<open>The calibration command\<close>

lemma calibrate_ok:
  assumes "py_int rw \<noteq> 0" "py_int rh \<noteq> 0"
  shows "calibrate s (rx, ry, rw, rh)
           \<lparr>x_calib0 = Some xa, y_calib0 = Some ya, x_calib1 = Some xb, y_calib1 = Some yb\<rparr> =
         (Running,
          s\<lparr>calibrationRef :=
               \<lparr>refPoint = \<lparr>pixels = (py_int rx, py_int ry), truth = (xa, ya)\<rparr>,
                pixelsToTruthRatio =
                  ((xb - xa) / real_of_int (py_int rw), (yb - ya) / real_of_int (py_int rh))\<rparr>,
             fps := Some 0\<rparr>)"
  using assms by (simp add: calibrate_def)

lemma calibrate_zero:
  assumes "py_int rw = 0 \<or> py_int rh = 0"
  shows "calibrate s (rx, ry, rw, rh)
           \<lparr>x_calib0 = Some xa, y_calib0 = Some ya, x_calib1 = Some xb, y_calib1 = Some yb\<rparr> =
         (Raised ZeroDivisionError,
          s\<lparr>calibrationRef := (calibrationRef s)
               \<lparr>refPoint := \<lparr>pixels = (py_int rx, py_int ry), truth = (xa, ya)\<rparr>\<rparr>\<rparr>)"
  using assms by (auto simp: calibrate_def Let_def)

lemma calibrate_unparsed:
  assumes "x_calib0 a = None \<or> y_calib0 a = None \<or> x_calib1 a = None \<or> y_calib1 a = None"
  shows "fst (calibrate s (rx, ry, rw, rh) a) = Raised ValueError"
    and "trackers (snd (calibrate s (rx, ry, rw, rh) a)) = trackers s"
    and "initBox (snd (calibrate s (rx, ry, rw, rh) a)) = initBox s"
    and "fps (snd (calibrate s (rx, ry, rw, rh) a)) = fps s"
    and "pixelsToTruthRatio (calibrationRef (snd (calibrate s (rx, ry, rw, rh) a))) =
           pixelsToTruthRatio (calibrationRef s)"
    and "x_calib0 a = None \<or> y_calib0 a = None \<Longrightarrow> snd (calibrate s (rx, ry, rw, rh) a) = s"
    and "x_calib0 a = Some xa \<Longrightarrow> y_calib0 a = Some ya \<Longrightarrow>
           refPoint (calibrationRef (snd (calibrate s (rx, ry, rw, rh) a))) =
             \<lparr>pixels = (py_int rx, py_int ry), truth = (xa, ya)\<rparr>"
  using assms by (auto simp: calibrate_def Let_def split: option.splits)

lemma iteration_calibrate:
  assumes "vs_read inp = Some f" "session_inv s" "waitKey inp AND 255 = ord CHR ''c''"
  shows "\<exists>s1 out. initBox s1 = initBox s \<and> trackers s1 = trackers s \<and>
           calibrationRef s1 = calibrationRef s \<and>
           iteration s inp =
             (fst (calibrate s1 (selectROI inp) (float_inputs inp)),
              snd (calibrate s1 (selectROI inp) (float_inputs inp)), out)"
proof (cases "initBox s")
  case None
  with assms show ?thesis
    by (intro exI [of _ s] exI [of _ "[]"])
       (simp add: iteration_def tracking_block_idle ord_keys Let_def split: prod.splits)
next
  case (Some b)
  with assms(2) obtain n where n: "fps s = Some n"
    by (auto simp: session_inv_def)
  let ?s1 = "s\<lparr>fps := Some (Suc n)\<rparr>"
  from assms Some n show ?thesis
    by (intro exI [of _ ?s1]
          exI [of _ "Newlines # snd (box_loop (calibrationRef s) (snd (update_result inp))) @
                       [Success (fst (update_result inp))]"])
       (simp add: iteration_def tracking_block_tracking ord_keys Let_def split: prod.splits)
qed

subsection \<open>Idle and tracking\<close>

text \<open>The loop in terms of its passes.\<close>

lemma run_running:
  assumes "run s inps = (Running, s', outs)"
  shows "length outs = length inps"
    and "\<forall>k<length inps. vs_read (inps ! k) \<noteq> None"
    and "run s (inps @ [inp]) =
           (fst (iteration s' inp), fst (snd (iteration s' inp)),
            outs @ [snd (snd (iteration s' inp))])"
  using assms
proof (induction inps arbitrary: s outs)
  case Nil
  {
    case 1 then show ?case by simp
  next
    case 2 then show ?case by simp
  next
    case 3 then show ?case by (cases "iteration s' inp") (auto simp: Let_def)
  }
next
  case (Cons i inps)
  {
    case 1
    obtain st1 s1 out where it: "iteration s i = (st1, s1, out)"
      by (cases "iteration s i") auto
    obtain st2 s2 outs' where r: "run s1 inps = (st2, s2, outs')"
      by (cases "run s1 inps") auto
    from 1 it r have run: "st1 = Running" "st2 = Running" "s2 = s'" "outs = out # outs'"
      by (auto split: if_splits)
    with r Cons.IH(1) [of s1 outs'] show ?case by simp
  next
    case 2
    obtain st1 s1 out where it: "iteration s i = (st1, s1, out)"
      by (cases "iteration s i") auto
    obtain st2 s2 outs' where r: "run s1 inps = (st2, s2, outs')"
      by (cases "run s1 inps") auto
    from 2 it r have run: "st1 = Running" "st2 = Running" "s2 = s'" "outs = out # outs'"
      by (auto split: if_splits)
    from it run(1) have f: "vs_read i \<noteq> None"
      by (cases "vs_read i") (simp_all add: iteration_def)
    from r run Cons.IH(2) [of s1 outs']
    have "\<forall>k<length inps. vs_read (inps ! k) \<noteq> None" by simp
    with f show ?case
      by (simp add: nth_Cons' del: not_None_eq)
  next
    case 3
    obtain st1 s1 out where it: "iteration s i = (st1, s1, out)"
      by (cases "iteration s i") auto
    obtain st2 s2 outs' where r: "run s1 inps = (st2, s2, outs')"
      by (cases "run s1 inps") auto
    from 3 it r have run: "st1 = Running" "st2 = Running" "s2 = s'" "outs = out # outs'"
      by (auto split: if_splits)
    from r run Cons.IH(3) [of s1 outs']
    have "run s1 (inps @ [inp]) =
           (fst (iteration s' inp), fst (snd (iteration s' inp)),
            outs' @ [snd (snd (iteration s' inp))])"
      by simp
    with it run show ?case by simp
  }
qed

lemma run_ended:
  "run s inps = (st, s', outs) \<Longrightarrow> st \<noteq> Running \<Longrightarrow>
   outs \<noteq> [] \<and> length outs \<le> length inps \<and> run s (inps @ rest) = (st, s', outs)"
proof (induction inps arbitrary: s outs)
  case Nil
  then show ?case by simp
next
  case (Cons i inps)
  obtain st1 s1 out where it: "iteration s i = (st1, s1, out)"
    by (cases "iteration s i") auto
  obtain st2 s2 outs' where r: "run s1 inps = (st2, s2, outs')"
    by (cases "run s1 inps") auto
  show ?case
  proof (cases "st1 = Running")
    case True
    with Cons.prems(1) it r have e: "st2 = st" "s2 = s'" "outs = out # outs'"
      by simp_all
    from Cons.IH [of s1 outs'] r e Cons.prems(2)
    have "outs' \<noteq> [] \<and> length outs' \<le> length inps \<and> run s1 (inps @ rest) = (st, s', outs')"
      by simp
    with it True e show ?thesis by simp
  next
    case False
    with Cons.prems(1) it have "st = st1" "s' = s1" "outs = [out]"
      by simp_all
    with it False show ?thesis by simp
  qed
qed

text \<open>The two kinds of pass, and which passes report.\<close>

lemma session_passes:
  "(run session_start inps = (Running, s, outs) \<and> vs_read inp \<noteq> None \<longrightarrow>
      (trackers s = [] \<longrightarrow>
         snd (snd (iteration s inp)) = [] \<and>
         (trackers (fst (snd (iteration s inp))) \<noteq> []) = (waitKey inp AND 255 = ord CHR ''s'')) \<and>
      (trackers s \<noteq> [] \<longrightarrow>
         snd (snd (iteration s inp)) =
           Newlines # snd (box_loop (calibrationRef s) (snd (update_result inp))) @
             [Success (fst (update_result inp))] \<and>
         trackers (fst (snd (iteration s inp))) \<noteq> []))
   \<and> (run session_start inps = (st, s, outs) \<longrightarrow>
        (\<forall>k<length outs.
           (outs ! k \<noteq> []) =
           (vs_read (inps ! k) \<noteq> None \<and>
            (\<exists>m<k. waitKey (inps ! m) AND 255 = ord CHR ''s''))))
   \<and> (\<exists>ys. trackers (fst (snd (run t inps))) = trackers t @ ys)"
proof (intro conjI impI)
  assume a: "run session_start inps = (Running, s, outs) \<and> vs_read inp \<noteq> None"
  then obtain f where f: "vs_read inp = Some f" by auto
  from a have inv: "session_inv s"
    using run_inv [OF _ session_inv_start] by blast
  obtain st1 s1 out where it: "iteration s inp = (st1, s1, out)"
    by (cases "iteration s inp") auto
  have inv1: "session_inv s1"
    by (rule iteration_inv [OF it inv])
  {
    assume t: "trackers s = []"
    with inv have idle: "initBox s = None" by (simp add: session_inv_def)
    show "snd (snd (iteration s inp)) = []"
      by (rule iteration_idle(1) [OF f idle])
    show "(trackers (fst (snd (iteration s inp))) \<noteq> []) = (waitKey inp AND 255 = ord CHR ''s'')"
    proof (cases "waitKey inp AND 255 = ord CHR ''s''")
      case True
      with iteration_idle(2) [OF f idle] show ?thesis by (simp add: add_region_def)
    next
      case False
      with iteration_idle(3) [OF f idle] inv1 it show ?thesis
        by (simp add: session_inv_def)
    qed
  }
  {
    assume t: "trackers s \<noteq> []"
    with inv obtain b n where b: "initBox s = Some b" and n: "fps s = Some n"
      by (auto simp: session_inv_def)
    show "snd (snd (iteration s inp)) =
           Newlines # snd (box_loop (calibrationRef s) (snd (update_result inp))) @
             [Success (fst (update_result inp))]"
      by (rule iteration_tracking(1) [OF f b n])
    from iteration_tracking(2) [OF f b n] inv1 it
    show "trackers (fst (snd (iteration s inp))) \<noteq> []"
      by (auto simp: session_inv_def)
  }
next
  assume r: "run session_start inps = (st, s, outs)"
  have "initBox session_start = None" by (simp add: session_start_def)
  with run_reports [OF r session_inv_start]
  show "\<forall>k<length outs.
           (outs ! k \<noteq> []) =
           (vs_read (inps ! k) \<noteq> None \<and>
            (\<exists>m<k. waitKey (inps ! m) AND 255 = ord CHR ''s''))"
    by simp
next
  show "\<exists>ys. trackers (fst (snd (run t inps))) = trackers t @ ys"
    by (rule run_trackers)
qed

text \<open>
  Claim C9. The loop is the repetition of single passes: it starts with no pass made;
  while it is going, it has made one pass for each input, each of them read a frame, and
  one more input is handled by one more pass from the state reached; after a \<^verbatim>\<open>break\<close>
  or an exception it makes no further pass. In every state \<open>s\<close> the loop reaches from the
  start, a pass that reads a frame behaves in one of two ways. While no tracker has been
  added, it prints and shows nothing, and a tracker exists afterwards exactly when the key
  of the pass is s. Once a tracker has been added, it produces the report (the blank
  lines, the lines of the loop over the boxes, the success flag) and a tracker still
  exists afterwards. Over a whole run from the start, pass \<open>k\<close> produces a report exactly
  when it reads a frame and the key s was pressed in an earlier pass; so in a run that is
  still going, every frame after the pass with the first s has its report. No run from
  any state removes a tracker: the trackers at the start of the run are a prefix of those
  at its end.
\<close>

theorem session_two_states:
  "(run session_start inps = (Running, s, outs) \<and> vs_read inp \<noteq> None \<longrightarrow>
      (trackers s = [] \<longrightarrow>
         snd (snd (iteration s inp)) = [] \<and>
         (trackers (fst (snd (iteration s inp))) \<noteq> []) = (waitKey inp AND 255 = ord CHR ''s'')) \<and>
      (trackers s \<noteq> [] \<longrightarrow>
         snd (snd (iteration s inp)) =
           Newlines # snd (box_loop (calibrationRef s) (snd (update_result inp))) @
             [Success (fst (update_result inp))] \<and>
         trackers (fst (snd (iteration s inp))) \<noteq> []))
   \<and> (run session_start inps = (st, s, outs) \<longrightarrow>
        (\<forall>k<length outs.
           (outs ! k \<noteq> []) =
           (vs_read (inps ! k) \<noteq> None \<and>
            (\<exists>m<k. waitKey (inps ! m) AND 255 = ord CHR ''s''))))
   \<and> (\<exists>ys. trackers (fst (snd (run t inps))) = trackers t @ ys)
   \<and> run t [] = (Running, t, [])
   \<and> (run t inps = (Running, s, outs) \<longrightarrow>
        length outs = length inps \<and>
        (\<forall>k<length inps. vs_read (inps ! k) \<noteq> None) \<and>
        run t (inps @ [inp]) =
          (fst (iteration s inp), fst (snd (iteration s inp)),
           outs @ [snd (snd (iteration s inp))]))
   \<and> (run t inps = (st, s, outs) \<and> st \<noteq> Running \<longrightarrow>
        outs \<noteq> [] \<and> length outs \<le> length inps \<and> run t (inps @ rest) = (st, s, outs))
   \<and> (run session_start inps = (Running, s, outs) \<longrightarrow>
        (\<forall>k<length inps.
           (outs ! k \<noteq> []) = (\<exists>m<k. waitKey (inps ! m) AND 255 = ord CHR ''s'')))"
proof -
  note passes = session_passes [of inps s outs inp st t]
  have start: "run t [] = (Running, t, [])"
    by simp
  have going: "length outs = length inps \<and>
        (\<forall>k<length inps. vs_read (inps ! k) \<noteq> None) \<and>
        run t (inps @ [inp]) =
          (fst (iteration s inp), fst (snd (iteration s inp)),
           outs @ [snd (snd (iteration s inp))])"
    if "run t inps = (Running, s, outs)"
    using run_running [OF that] by blast
  have ended: "outs \<noteq> [] \<and> length outs \<le> length inps \<and> run t (inps @ rest) = (st, s, outs)"
    if "run t inps = (st, s, outs) \<and> st \<noteq> Running"
    using run_ended [of t inps st s outs rest] that by blast
  have every: "\<forall>k<length inps.
           (outs ! k \<noteq> []) = (\<exists>m<k. waitKey (inps ! m) AND 255 = ord CHR ''s'')"
    if r: "run session_start inps = (Running, s, outs)"
  proof -
    have len: "length outs = length inps"
      and fr: "\<forall>k<length inps. vs_read (inps ! k) \<noteq> None"
      using run_running(1,2) [OF r] by blast+
    have "initBox session_start = None"
      by (simp add: session_start_def)
    with run_reports [OF r session_inv_start] len fr show ?thesis
      by (simp del: not_None_eq)
  qed
  from passes start going ended every show ?thesis
    by blast
qed

theorem session_two_states_witness:
  "run session_start [] = (Running, session_start, []) \<and>
   vs_read (example_pass 115) \<noteq> None \<and>
   trackers session_start = [] \<and>
   snd (snd (iteration session_start (example_pass 115))) = [] \<and>
   trackers (fst (snd (iteration session_start (example_pass 115)))) \<noteq> [] \<and>
   run session_start [example_pass 115] =
     (Running, add_region session_start (0, 0, 100, 50), [[]]) \<and>
   trackers (add_region session_start (0, 0, 100, 50)) \<noteq> [] \<and>
   snd (snd (iteration (add_region session_start (0, 0, 100, 50)) (example_pass 0))) =
     [Newlines, Object 0 20 20, Object 1 60 60, Distance 0 1 40 40, Success True] \<and>
   snd (snd (run session_start [example_pass 115, example_pass 0])) =
     [[], [Newlines, Object 0 20 20, Object 1 60 60, Distance 0 1 40 40, Success True]] \<and>
   run session_start ([example_pass 113] @ [example_pass 0]) = (Stopped, session_start, [[]])"
proof -
  have r0: "run session_start [] = (Running, session_start, [])"
    by simp
  have f: "vs_read (example_pass k) \<noteq> None" for k
    by (simp add: example_pass_def)
  have it: "iteration session_start (example_pass 115) =
     (Running, add_region session_start (0, 0, 100, 50), [])"
    by (simp add: iteration_def tracking_block_def session_start_def example_pass_def ord_def
        add_region_def)
  then have r1: "run session_start [example_pass 115] =
     (Running, add_region session_start (0, 0, 100, 50), [[]])"
    by simp
  have t0: "trackers session_start = []"
    by (simp add: session_start_def)
  have t1: "trackers (add_region session_start (0, 0, 100, 50)) \<noteq> []"
    by (simp add: add_region_def)
  have bl: "snd (box_loop calibrationRef_default [(10, 10, 20, 20), (50, 50, 20, 20)]) =
              [Object 0 20 20, Object 1 60 60, Distance 0 1 40 40]"
    by (simp add: box_loop_eq lines_of_def realXY_of_def calibrateXY_def
          calibrationRef_default_def py_int_def)
  have it2: "iteration (add_region session_start (0, 0, 100, 50)) (example_pass 0) =
     (Running, (add_region session_start (0, 0, 100, 50))\<lparr>fps := Some 1\<rparr>,
      [Newlines, Object 0 20 20, Object 1 60 60, Distance 0 1 40 40, Success True])"
    by (simp add: iteration_def tracking_block_def session_start_def example_pass_def ord_def
        add_region_def bl)
  have r2: "run session_start [example_pass 115, example_pass 0] =
     (Running, (add_region session_start (0, 0, 100, 50))\<lparr>fps := Some 1\<rparr>,
      [[], [Newlines, Object 0 20 20, Object 1 60 60, Distance 0 1 40 40, Success True]])"
    by (simp add: it it2)
  have key: "waitKey (example_pass 115) AND 255 = ord CHR ''s''"
    by (simp add: example_pass_def ord_def)
  have cal: "calibrationRef (add_region session_start (0, 0, 100, 50)) = calibrationRef_default"
    by (simp add: add_region_def session_start_def)
  have upd: "update_result (example_pass 0) = (True, [(10, 10, 20, 20), (50, 50, 20, 20)])"
    by (simp add: example_pass_def)
  have A: "snd (snd (iteration session_start (example_pass 115))) = [] \<and>
           (trackers (fst (snd (iteration session_start (example_pass 115)))) \<noteq> []) =
             (waitKey (example_pass 115) AND 255 = ord CHR ''s'')"
    using session_two_states
            [where inps = "[]" and s = session_start and outs = "[]" and
               inp = "example_pass 115" and st = Running and t = session_start and
               rest = "[]"]
          r0 f t0
    by blast
  have B: "snd (snd (iteration (add_region session_start (0, 0, 100, 50)) (example_pass 0))) =
           Newlines #
           snd (box_loop (calibrationRef (add_region session_start (0, 0, 100, 50)))
                  (snd (update_result (example_pass 0)))) @
           [Success (fst (update_result (example_pass 0)))]"
    using session_two_states
            [where inps = "[example_pass 115]" and
               s = "add_region session_start (0, 0, 100, 50)" and outs = "[[]]" and
               inp = "example_pass 0" and st = Running and t = session_start and
               rest = "[]"]
          r1 f t1
    by blast
  from A key have A': "snd (snd (iteration session_start (example_pass 115))) = []"
    and A'': "trackers (fst (snd (iteration session_start (example_pass 115)))) \<noteq> []"
    by simp_all
  from B have B': "snd (snd (iteration (add_region session_start (0, 0, 100, 50))
                     (example_pass 0))) =
     [Newlines, Object 0 20 20, Object 1 60 60, Distance 0 1 40 40, Success True]"
    by (simp only: cal upd bl fst_conv snd_conv append_Cons append_Nil)
  have q: "run session_start [example_pass 113] = (Stopped, session_start, [[]])"
    by (simp add: iteration_def tracking_block_def session_start_def example_pass_def ord_def)
  have E: "run session_start ([example_pass 113] @ [example_pass 0]) =
             (Stopped, session_start, [[]])"
    using session_two_states
            [where inps = "[example_pass 113]" and s = session_start and outs = "[[]]" and
               inp = "example_pass 0" and st = Stopped and t = session_start and
               rest = "[example_pass 0]"]
          q
    by blast
  have r2': "snd (snd (run session_start [example_pass 115, example_pass 0])) =
     [[], [Newlines, Object 0 20 20, Object 1 60 60, Distance 0 1 40 40, Success True]]"
    by (simp only: r2 snd_conv)
  from r0 f [of 115] t0 A' A'' r1 t1 B' r2' E show ?thesis
    by (intro conjI)
qed

subsection \<open>What a calibration command does\<close>

text \<open>
  Claim C3. When the rectangle \<open>(x, y, w, h)\<close> has non-zero width and height and the four
  values typed are \<open>xa\<close>, \<open>ya\<close> (for the corner A = \<open>(x, y)\<close>) and \<open>xb\<close>, \<open>yb\<close> (for the
  opposite corner B), the calibration sets the reference pixel to A, the reference truth
  to \<open>(xa, ya)\<close> and the ratio to \<open>((xb - xa) / w, (yb - ya) / h)\<close>, and the loop goes on.
  For A = (0,0) and B = (100,50) mapped to (0,0) and (10,5), the ratio is (0.1, 0.1), and
  the pixel (50,25) is then mapped to (5, 2.5).
\<close>

theorem calibrate_sets_constants:
  "(py_int rw \<noteq> 0 \<and> py_int rh \<noteq> 0 \<longrightarrow>
      calibrate s (rx, ry, rw, rh)
        \<lparr>x_calib0 = Some xa, y_calib0 = Some ya, x_calib1 = Some xb, y_calib1 = Some yb\<rparr> =
      (Running,
       s\<lparr>calibrationRef :=
            \<lparr>refPoint = \<lparr>pixels = (py_int rx, py_int ry), truth = (xa, ya)\<rparr>,
             pixelsToTruthRatio =
               ((xb - xa) / real_of_int (py_int rw), (yb - ya) / real_of_int (py_int rh))\<rparr>,
          fps := Some 0\<rparr>))
   \<and> pixelsToTruthRatio (calibrationRef (snd (calibrate session_start (0, 0, 100, 50)
         \<lparr>x_calib0 = Some 0, y_calib0 = Some 0, x_calib1 = Some 10, y_calib1 = Some 5\<rparr>))) =
       (1 / 10, 1 / 10)
   \<and> calibrateXY (calibrationRef (snd (calibrate session_start (0, 0, 100, 50)
         \<lparr>x_calib0 = Some 0, y_calib0 = Some 0, x_calib1 = Some 10, y_calib1 = Some 5\<rparr>)))
         (50, 25) ref = (5, 5 / 2)"
proof -
  have nz: "py_int 100 \<noteq> 0" "py_int 50 \<noteq> 0"
    by (simp_all add: py_int_def)
  have ex: "calibrationRef (snd (calibrate session_start (0, 0, 100, 50)
         \<lparr>x_calib0 = Some 0, y_calib0 = Some 0, x_calib1 = Some 10, y_calib1 = Some 5\<rparr>)) =
       \<lparr>refPoint = \<lparr>pixels = (0, 0), truth = (0, 0)\<rparr>, pixelsToTruthRatio = (1 / 10, 1 / 10)\<rparr>"
    by (simp add: calibrate_ok [OF nz] py_int_def)
  show ?thesis
    by (simp add: calibrate_ok ex calibrateXY_def)
qed

theorem calibrate_sets_constants_witness:
  "py_int 100 \<noteq> 0 \<and> py_int 50 \<noteq> 0 \<and>
   calibrate session_start (0, 0, 100, 50)
     \<lparr>x_calib0 = Some 0, y_calib0 = Some 0, x_calib1 = Some 10, y_calib1 = Some 5\<rparr> =
   (Running,
    \<lparr>initBox = None, trackers = [], fps = Some 0,
     calibrationRef =
       \<lparr>refPoint = \<lparr>pixels = (0, 0), truth = (0, 0)\<rparr>,
        pixelsToTruthRatio = (1 / 10, 1 / 10)\<rparr>\<rparr>)"
  using calibrate_sets_constants
          [where rw = 100 and rh = 50 and s = session_start and rx = 0 and ry = 0 and
             xa = 0 and ya = 0 and xb = 10 and yb = 5 and ref = "()"]
  by (simp add: py_int_def session_start_def)

text \<open>
  A pass with the key c, from a state the loop reaches, ends as the calibration command
  ends, run from a state with the same tracks and calibration constants.
\<close>

lemma calibration_pass:
  assumes "run session_start inps = (Running, s, outs)" "vs_read inp \<noteq> None"
    "waitKey inp AND 255 = ord CHR ''c''"
  obtains s1 out where "initBox s1 = initBox s" "trackers s1 = trackers s"
    "calibrationRef s1 = calibrationRef s"
    "iteration s inp =
       (fst (calibrate s1 (selectROI inp) (float_inputs inp)),
        snd (calibrate s1 (selectROI inp) (float_inputs inp)), out)"
proof -
  from assms(2) obtain f where f: "vs_read inp = Some f" by auto
  have inv: "session_inv s"
    by (rule run_inv [OF assms(1) session_inv_start])
  from iteration_calibrate [OF f inv assms(3)] that show ?thesis by blast
qed

text \<open>
  Claim C5, as the code has it. The script does not test the rectangle. For a calibration
  command whose rectangle has zero width or zero height, once the four values have been
  read, the reference pixel and truth are replaced and the division by the zero width or
  height raises \<^verbatim>\<open>ZeroDivisionError\<close>; nothing catches it, so the run ends with this pass
  (later inputs are not consumed). The ratio and the trackers are as before.
\<close>

theorem degenerate_rectangle_raises:
  "run session_start inps = (Running, s, outs) \<and> vs_read inp \<noteq> None \<and>
   waitKey inp AND 255 = ord CHR ''c'' \<and> selectROI inp = (rx, ry, rw, rh) \<and>
   float_inputs inp =
     \<lparr>x_calib0 = Some xa, y_calib0 = Some ya, x_calib1 = Some xb, y_calib1 = Some yb\<rparr> \<and>
   (py_int rw = 0 \<or> py_int rh = 0) \<longrightarrow>
     fst (run s (inp # rest)) = Raised ZeroDivisionError \<and>
     length (snd (snd (run s (inp # rest)))) = 1 \<and>
     refPoint (calibrationRef (fst (snd (run s (inp # rest))))) =
       \<lparr>pixels = (py_int rx, py_int ry), truth = (xa, ya)\<rparr> \<and>
     pixelsToTruthRatio (calibrationRef (fst (snd (run s (inp # rest))))) =
       pixelsToTruthRatio (calibrationRef s) \<and>
     trackers (fst (snd (run s (inp # rest)))) = trackers s"
proof
  assume a: "run session_start inps = (Running, s, outs) \<and> vs_read inp \<noteq> None \<and>
   waitKey inp AND 255 = ord CHR ''c'' \<and> selectROI inp = (rx, ry, rw, rh) \<and>
   float_inputs inp =
     \<lparr>x_calib0 = Some xa, y_calib0 = Some ya, x_calib1 = Some xb, y_calib1 = Some yb\<rparr> \<and>
   (py_int rw = 0 \<or> py_int rh = 0)"
  then obtain s1 out where s1: "trackers s1 = trackers s" "calibrationRef s1 = calibrationRef s"
    and it: "iteration s inp =
       (fst (calibrate s1 (selectROI inp) (float_inputs inp)),
        snd (calibrate s1 (selectROI inp) (float_inputs inp)), out)"
    by (blast elim: calibration_pass)
  from a have z: "py_int rw = 0 \<or> py_int rh = 0" by simp
  from a it calibrate_zero [OF z, where s = s1 and rx = rx and ry = ry and xa = xa and ya = ya and xb = xb and yb = yb]
  have it': "iteration s inp =
     (Raised ZeroDivisionError,
      s1\<lparr>calibrationRef := (calibrationRef s1)
           \<lparr>refPoint := \<lparr>pixels = (py_int rx, py_int ry), truth = (xa, ya)\<rparr>\<rparr>\<rparr>, out)"
    by simp
  then have "run s (inp # rest) =
     (Raised ZeroDivisionError,
      s1\<lparr>calibrationRef := (calibrationRef s1)
           \<lparr>refPoint := \<lparr>pixels = (py_int rx, py_int ry), truth = (xa, ya)\<rparr>\<rparr>\<rparr>, [out])"
    by simp
  with s1 show "fst (run s (inp # rest)) = Raised ZeroDivisionError \<and>
     length (snd (snd (run s (inp # rest)))) = 1 \<and>
     refPoint (calibrationRef (fst (snd (run s (inp # rest))))) =
       \<lparr>pixels = (py_int rx, py_int ry), truth = (xa, ya)\<rparr> \<and>
     pixelsToTruthRatio (calibrationRef (fst (snd (run s (inp # rest))))) =
       pixelsToTruthRatio (calibrationRef s) \<and>
     trackers (fst (snd (run s (inp # rest)))) = trackers s"
    by simp
qed

theorem degenerate_rectangle_raises_witness:
  "run session_start [] = (Running, session_start, []) \<and>
   vs_read ((example_pass 99)\<lparr>selectROI := (0, 0, 0, 50)\<rparr>) \<noteq> None \<and>
   waitKey ((example_pass 99)\<lparr>selectROI := (0, 0, 0, 50)\<rparr>) AND 255 = ord CHR ''c'' \<and>
   py_int 0 = 0 \<and>
   fst (run session_start [(example_pass 99)\<lparr>selectROI := (0, 0, 0, 50)\<rparr>, example_pass 0]) =
     Raised ZeroDivisionError \<and>
   length (snd (snd (run session_start
     [(example_pass 99)\<lparr>selectROI := (0, 0, 0, 50)\<rparr>, example_pass 0]))) = 1"
  using degenerate_rectangle_raises
          [where inps = "[]" and s = session_start and outs = "[]" and
             inp = "(example_pass 99)\<lparr>selectROI := (0, 0, 0, 50)\<rparr>" and
             rx = 0 and ry = 0 and rw = 0 and rh = 50 and
             xa = 0 and ya = 0 and xb = 10 and yb = 5 and rest = "[example_pass 0]"]
  by (simp add: example_pass_def ord_def py_int_def)

text \<open>
  A rectangle of width 0 is not rejected: the first half of the calibration has been
  carried out and the division is reached with the divisor 0.
\<close>

theorem degenerate_rectangle_counterexample:
  "py_int 0 = 0 \<and>
   calibrate session_start (0, 0, 0, 50)
     \<lparr>x_calib0 = Some 3, y_calib0 = Some 4, x_calib1 = Some 10, y_calib1 = Some 5\<rparr> =
   (Raised ZeroDivisionError,
    session_start\<lparr>calibrationRef :=
      \<lparr>refPoint = \<lparr>pixels = (0, 0), truth = (3, 4)\<rparr>, pixelsToTruthRatio = (1, 1)\<rparr>\<rparr>) \<and>
   fst (run session_start [(example_pass 99)\<lparr>selectROI := (0, 0, 0, 50)\<rparr>, example_pass 0]) =
     Raised ZeroDivisionError"
  by (simp add: calibrate_def py_int_def session_start_def calibrationRef_default_def
        iteration_def tracking_block_def example_pass_def ord_def)

text \<open>
  Claim C4, as the code has it. When one of the four values typed during a calibration is
  not a number, \<^verbatim>\<open>float\<close> raises \<^verbatim>\<open>ValueError\<close> and nothing catches it: the run ends
  with this pass. At that point the trackers, \<^verbatim>\<open>initBox\<close> and the ratio are as before;
  the reference point is as before when the first or the second value is the one that
  fails, and has already been replaced by the rectangle's corner and the first two values
  when both of them were numbers.
\<close>

theorem unparsed_value_raises:
  "run session_start inps = (Running, s, outs) \<and> vs_read inp \<noteq> None \<and>
   waitKey inp AND 255 = ord CHR ''c'' \<and> selectROI inp = (rx, ry, rw, rh) \<and>
   (x_calib0 (float_inputs inp) = None \<or> y_calib0 (float_inputs inp) = None \<or>
    x_calib1 (float_inputs inp) = None \<or> y_calib1 (float_inputs inp) = None) \<longrightarrow>
     fst (run s (inp # rest)) = Raised ValueError \<and>
     length (snd (snd (run s (inp # rest)))) = 1 \<and>
     trackers (fst (snd (run s (inp # rest)))) = trackers s \<and>
     initBox (fst (snd (run s (inp # rest)))) = initBox s \<and>
     pixelsToTruthRatio (calibrationRef (fst (snd (run s (inp # rest))))) =
       pixelsToTruthRatio (calibrationRef s) \<and>
     (x_calib0 (float_inputs inp) = None \<or> y_calib0 (float_inputs inp) = None \<longrightarrow>
        calibrationRef (fst (snd (run s (inp # rest)))) = calibrationRef s) \<and>
     (x_calib0 (float_inputs inp) = Some xa \<and> y_calib0 (float_inputs inp) = Some ya \<longrightarrow>
        refPoint (calibrationRef (fst (snd (run s (inp # rest))))) =
          \<lparr>pixels = (py_int rx, py_int ry), truth = (xa, ya)\<rparr>)"
proof
  let ?a = "float_inputs inp"
  assume a: "run session_start inps = (Running, s, outs) \<and> vs_read inp \<noteq> None \<and>
   waitKey inp AND 255 = ord CHR ''c'' \<and> selectROI inp = (rx, ry, rw, rh) \<and>
   (x_calib0 ?a = None \<or> y_calib0 ?a = None \<or> x_calib1 ?a = None \<or> y_calib1 ?a = None)"
  then obtain s1 out where s1: "initBox s1 = initBox s" "trackers s1 = trackers s"
      "calibrationRef s1 = calibrationRef s"
    and it: "iteration s inp =
       (fst (calibrate s1 (selectROI inp) ?a), snd (calibrate s1 (selectROI inp) ?a), out)"
    by (blast elim: calibration_pass)
  from a have roi: "selectROI inp = (rx, ry, rw, rh)"
    and u: "x_calib0 ?a = None \<or> y_calib0 ?a = None \<or> x_calib1 ?a = None \<or> y_calib1 ?a = None"
    by simp_all
  let ?c = "calibrate s1 (rx, ry, rw, rh) ?a"
  note c = calibrate_unparsed [OF u, where s = s1 and rx = rx and ry = ry and rw = rw and rh = rh]
  from it roi c(1) have r: "run s (inp # rest) = (Raised ValueError, snd ?c, [out])"
    by simp
  have "calibrationRef (snd ?c) = calibrationRef s"
    if "x_calib0 ?a = None \<or> y_calib0 ?a = None"
    using c(6) [OF that] s1 by simp
  moreover have "refPoint (calibrationRef (snd ?c)) =
          \<lparr>pixels = (py_int rx, py_int ry), truth = (xa, ya)\<rparr>"
    if "x_calib0 ?a = Some xa \<and> y_calib0 ?a = Some ya"
    using c(7) [where xa = xa and ya = ya] that by simp
  ultimately show "fst (run s (inp # rest)) = Raised ValueError \<and>
     length (snd (snd (run s (inp # rest)))) = 1 \<and>
     trackers (fst (snd (run s (inp # rest)))) = trackers s \<and>
     initBox (fst (snd (run s (inp # rest)))) = initBox s \<and>
     pixelsToTruthRatio (calibrationRef (fst (snd (run s (inp # rest))))) =
       pixelsToTruthRatio (calibrationRef s) \<and>
     (x_calib0 ?a = None \<or> y_calib0 ?a = None \<longrightarrow>
        calibrationRef (fst (snd (run s (inp # rest)))) = calibrationRef s) \<and>
     (x_calib0 ?a = Some xa \<and> y_calib0 ?a = Some ya \<longrightarrow>
        refPoint (calibrationRef (fst (snd (run s (inp # rest))))) =
          \<lparr>pixels = (py_int rx, py_int ry), truth = (xa, ya)\<rparr>)"
    using r c(2,3,5) s1 by simp
qed

theorem unparsed_value_raises_witness:
  "run session_start [] = (Running, session_start, []) \<and>
   vs_read ((example_pass 99)\<lparr>float_inputs :=
      \<lparr>x_calib0 = None, y_calib0 = Some 4, x_calib1 = Some 10, y_calib1 = Some 5\<rparr>\<rparr>) \<noteq> None \<and>
   fst (run session_start [(example_pass 99)\<lparr>float_inputs :=
      \<lparr>x_calib0 = None, y_calib0 = Some 4, x_calib1 = Some 10, y_calib1 = Some 5\<rparr>\<rparr>,
      example_pass 0]) = Raised ValueError \<and>
   calibrationRef (fst (snd (run session_start [(example_pass 99)\<lparr>float_inputs :=
      \<lparr>x_calib0 = None, y_calib0 = Some 4, x_calib1 = Some 10, y_calib1 = Some 5\<rparr>\<rparr>,
      example_pass 0]))) = calibrationRef session_start \<and>
   fst (run session_start [(example_pass 99)\<lparr>float_inputs :=
      \<lparr>x_calib0 = Some 3, y_calib0 = Some 4, x_calib1 = None, y_calib1 = Some 5\<rparr>\<rparr>,
      example_pass 0]) = Raised ValueError \<and>
   refPoint (calibrationRef (fst (snd (run session_start [(example_pass 99)\<lparr>float_inputs :=
      \<lparr>x_calib0 = Some 3, y_calib0 = Some 4, x_calib1 = None, y_calib1 = Some 5\<rparr>\<rparr>,
      example_pass 0])))) = \<lparr>pixels = (0, 0), truth = (3, 4)\<rparr>"
  using unparsed_value_raises
          [where inps = "[]" and s = session_start and outs = "[]" and
             inp = "(example_pass 99)\<lparr>float_inputs :=
               \<lparr>x_calib0 = None, y_calib0 = Some 4, x_calib1 = Some 10, y_calib1 = Some 5\<rparr>\<rparr>" and
             rx = 0 and ry = 0 and rw = 100 and rh = 50 and xa = 3 and ya = 4 and
             rest = "[example_pass 0]"]
        unparsed_value_raises
          [where inps = "[]" and s = session_start and outs = "[]" and
             inp = "(example_pass 99)\<lparr>float_inputs :=
               \<lparr>x_calib0 = Some 3, y_calib0 = Some 4, x_calib1 = None, y_calib1 = Some 5\<rparr>\<rparr>" and
             rx = 0 and ry = 0 and rw = 100 and rh = 50 and xa = 3 and ya = 4 and
             rest = "[example_pass 0]"]
  by (simp add: example_pass_def ord_def py_int_def)

text \<open>
  When the third value is not a number, the run does not continue, and the calibration
  constants are no longer those the command started with.
\<close>

theorem unparsed_value_counterexample:
  "fst (run session_start [(example_pass 99)\<lparr>float_inputs :=
      \<lparr>x_calib0 = Some 3, y_calib0 = Some 4, x_calib1 = None, y_calib1 = Some 5\<rparr>\<rparr>,
      example_pass 0]) = Raised ValueError \<and>
   calibrationRef (fst (snd (run session_start [(example_pass 99)\<lparr>float_inputs :=
      \<lparr>x_calib0 = Some 3, y_calib0 = Some 4, x_calib1 = None, y_calib1 = Some 5\<rparr>\<rparr>,
      example_pass 0]))) \<noteq> calibrationRef session_start"
  by (simp add: calibrate_def py_int_def session_start_def calibrationRef_default_def
        iteration_def tracking_block_def example_pass_def ord_def)

end
